theory Spec2Isabelle
  imports Complex_Main "HOL-Library.Sublist"
begin

section \<open>Python values used by the protocol\<close>

text \<open>
  The protocol \<^verbatim>\<open>ProtDMMValidation\<close> (file \<^verbatim>\<open>dmm/protocols/protocol_dmm.py\<close>) works on
  Python strings. A \<^typ>\<open>string\<close> of the model is a Python \<^verbatim>\<open>str\<close> whose code points are
  all below 256, one \<^typ>\<open>char\<close> per code point. Exceptions are values of \<open>py_error\<close>; a
  function that can raise returns \<open>py_error + 'a\<close>, with \<open>Inl\<close> for the exception.
\<close>

datatype py_error =
    IndexError
  | AttributeError
  | FileNotFoundError
  | FileExistsError
  | NotADirectoryError
  | IsADirectoryError
  | SameFileError
  | JobError int
  | ExternalError string

text \<open>\<^verbatim>\<open>s.startswith(p)\<close>.\<close>

definition startswith :: "string \<Rightarrow> string \<Rightarrow> bool" where
  "startswith s p = (take (length p) s = p)"

text \<open>\<^verbatim>\<open>s[i:j]\<close> for \<open>0 \<le> i \<le> j\<close>: a slice never raises and is cut at the end of \<open>s\<close>.\<close>

definition py_slice :: "string \<Rightarrow> nat \<Rightarrow> nat \<Rightarrow> string" where
  "py_slice s i j = take (j - i) (drop i s)"

text \<open>\<^verbatim>\<open>s[i]\<close> for \<open>0 \<le> i\<close>: raises \<^verbatim>\<open>IndexError\<close> when \<open>i\<close> is out of range.\<close>

definition py_index :: "string \<Rightarrow> nat \<Rightarrow> py_error + string" where
  "py_index s i = (if i < length s then Inr [s ! i] else Inl IndexError)"

text \<open>
  \<^verbatim>\<open>str.isspace\<close> on one code point below 256: the characters 9 to 13, 28 to 32, 133 and 160.
\<close>

definition isspace :: "char \<Rightarrow> bool" where
  "isspace c = (let n = (of_char c :: nat)
                in (9 \<le> n \<and> n \<le> 13) \<or> (28 \<le> n \<and> n \<le> 32) \<or> n = 133 \<or> n = 160)"

text \<open>\<^verbatim>\<open>s.strip()\<close>: leading and trailing whitespace removed.\<close>

definition strip :: "string \<Rightarrow> string" where
  "strip s = rev (dropWhile isspace (rev (dropWhile isspace s)))"

text \<open>\<^verbatim>\<open>s.endswith(p)\<close>.\<close>

definition endswith :: "string \<Rightarrow> string \<Rightarrow> bool" where
  "endswith s p = (drop (length s - length p) s = p \<and> length p \<le> length s)"

text \<open>\<^verbatim>\<open>sub in s\<close> on strings: \<open>sub\<close> occurs in \<open>s\<close> as a contiguous run.\<close>

fun py_in :: "string \<Rightarrow> string \<Rightarrow> bool" where
  "py_in sub [] = (sub = [])"
| "py_in sub (c # cs) = (startswith (c # cs) sub \<or> py_in sub cs)"

text \<open>\<^verbatim>\<open>'{}'.format(i)\<close> for an integer: its decimal digits, with a sign when negative.\<close>

fun digits :: "nat \<Rightarrow> string" where
  "digits n = (if n < 10 then [''0123456789'' ! n]
               else digits (n div 10) @ [''0123456789'' ! (n mod 10)])"

declare digits.simps [simp del]

definition str_int :: "int \<Rightarrow> string" where
  "str_int i = (if i < 0 then ''-'' @ digits (nat (- i)) else digits (nat i))"

section \<open>Path names (\<^verbatim>\<open>os.path\<close> on POSIX)\<close>

text \<open>
  The functions of \<^verbatim>\<open>posixpath\<close> the protocol calls, on strings.
  \<^verbatim>\<open>join(a, *p)\<close> restarts at a part that begins with the separator and puts one separator
  between parts otherwise.
\<close>

definition isabs :: "string \<Rightarrow> bool" where
  "isabs s = startswith s ''/''"

definition join2 :: "string \<Rightarrow> string \<Rightarrow> string" where
  "join2 path b =
     (if startswith b ''/'' then b
      else if path = [] \<or> endswith path ''/'' then path @ b
      else path @ ''/'' @ b)"

definition join :: "string \<Rightarrow> string list \<Rightarrow> string" where
  "join a p = foldl join2 a p"

text \<open>\<^verbatim>\<open>basename(p)\<close>: what follows the last separator.\<close>

definition basename :: "string \<Rightarrow> string" where
  "basename p = rev (takeWhile (\<lambda>c. c \<noteq> CHR ''/'') (rev p))"

text \<open>
  \<^verbatim>\<open>splitext(p)\<close>: the extension starts at the last dot of the last component, unless only
  dots come before that dot in the component; then there is no extension.
\<close>

definition splitext :: "string \<Rightarrow> string \<times> string" where
  "splitext p =
     (let f = basename p;
          ext = rev (takeWhile (\<lambda>c. c \<noteq> CHR ''.'') (rev f));
          root = take (length f - length ext - 1) f
      in if CHR ''.'' \<in> set f \<and> list_ex (\<lambda>c. c \<noteq> CHR ''.'') root
         then (take (length p - length ext - 1) p, drop (length p - length ext - 1) p)
         else (p, []))"

text \<open>\<^verbatim>\<open>s.split('/')\<close>.\<close>

fun split_sep :: "string \<Rightarrow> string list" where
  "split_sep [] = [[]]"
| "split_sep (c # cs) =
     (if c = CHR ''/'' then [] # split_sep cs
      else (case split_sep cs of w # ws \<Rightarrow> (c # w) # ws | [] \<Rightarrow> [[c]]))"

text \<open>
  The loop of \<^verbatim>\<open>normpath\<close> over the components: empty components and \<^verbatim>\<open>.\<close> are dropped,
  \<^verbatim>\<open>..\<close> removes the component before it (at the root of an absolute path it is dropped,
  at the start of a relative path it is kept).
\<close>

definition norm_step :: "bool \<Rightarrow> string list \<Rightarrow> string \<Rightarrow> string list" where
  "norm_step initial_slashes new_comps cmp =
     (if cmp = [] \<or> cmp = ''.'' then new_comps
      else if cmp \<noteq> ''..'' \<or> (\<not> initial_slashes \<and> new_comps = [])
              \<or> (new_comps \<noteq> [] \<and> last new_comps = ''..'')
           then new_comps @ [cmp]
      else butlast new_comps)"

definition norm_comps :: "bool \<Rightarrow> string list \<Rightarrow> string list" where
  "norm_comps initial_slashes comps = foldl (norm_step initial_slashes) [] comps"

text \<open>\<^verbatim>\<open>'/'.join(comps)\<close>.\<close>

fun sep_join :: "string list \<Rightarrow> string" where
  "sep_join [] = []"
| "sep_join [c] = c"
| "sep_join (c # cs) = c @ ''/'' @ sep_join cs"

definition normpath :: "string \<Rightarrow> string" where
  "normpath path =
     (if path = [] then ''.''
      else
        let initial_slashes = startswith path ''/'';
            n = (if initial_slashes \<and> startswith path ''//'' \<and> \<not> startswith path ''///''
                 then 2 else if initial_slashes then 1 else 0 :: nat);
            comps = norm_comps initial_slashes (split_sep path);
            s = replicate n (CHR ''/'') @ sep_join comps
        in if s = [] then ''.'' else s)"

text \<open>
  \<^verbatim>\<open>abspath(path)\<close>, with the result of \<^verbatim>\<open>os.getcwd()\<close> as first argument.
\<close>

definition abspath :: "string \<Rightarrow> string \<Rightarrow> string" where
  "abspath cwd path = normpath (if isabs path then path else join2 cwd path)"

text \<open>
  A component that names an entry: not empty, not \<^verbatim>\<open>.\<close> or \<^verbatim>\<open>..\<close>, without separator.
\<close>

definition plain :: "string \<Rightarrow> bool" where
  "plain c = (c \<noteq> [] \<and> c \<noteq> ''.'' \<and> c \<noteq> ''..'' \<and> CHR ''/'' \<notin> set c)"

section \<open>The file system\<close>

text \<open>
  A file or directory is found by the list of names that lead to it from the root: the
  components of its absolute, normalised name (\<open>resolve\<close>). Two leading slashes name the root
  as one does, and there are no symbolic links. The file system maps such a list to what is
  there; a file holds its lines.
\<close>

type_synonym path = "string list"

datatype node = File "string list" | Dir

type_synonym fs = "path \<rightharpoonup> node"

definition resolve :: "string \<Rightarrow> string \<Rightarrow> path" where
  "resolve cwd name =
     (let q = (if isabs name then name else join2 cwd name)
      in norm_comps (isabs q) (split_sep q))"

text \<open>
  \<^verbatim>\<open>shutil.copytree(src, dst)\<close>: the source is listed first (it must be a directory), then
  the destination is created with \<^verbatim>\<open>os.makedirs\<close> (it must not exist, and no file may be on
  the way to it; the directories missing on the way are created) and receives a copy of
  everything under the source. The destination is taken to lie outside the source.
\<close>

definition is_file :: "fs \<Rightarrow> path \<Rightarrow> bool" where
  "is_file t p = (case t p of Some (File _) \<Rightarrow> True | _ \<Rightarrow> False)"

definition copytree :: "fs \<Rightarrow> path \<Rightarrow> path \<Rightarrow> py_error + fs" where
  "copytree t src dst =
     (case t src of
        None \<Rightarrow> Inl FileNotFoundError
      | Some (File _) \<Rightarrow> Inl NotADirectoryError
      | Some Dir \<Rightarrow>
          (if t dst \<noteq> None then Inl FileExistsError
           else if list_ex (is_file t) (prefixes dst) then Inl NotADirectoryError
           else Inr (\<lambda>p. if prefix dst p then t (src @ drop (length dst) p)
                         else if strict_prefix p dst \<and> t p = None then Some Dir
                         else t p)))"

text \<open>\<^verbatim>\<open>shutil.rmtree(path)\<close>: the directory and everything under it is removed.\<close>

definition rmtree :: "fs \<Rightarrow> path \<Rightarrow> py_error + fs" where
  "rmtree t d =
     (case t d of
        None \<Rightarrow> Inl FileNotFoundError
      | Some (File _) \<Rightarrow> Inl NotADirectoryError
      | Some Dir \<Rightarrow> Inr (\<lambda>p. if prefix d p then None else t p))"

text \<open>
  \<^verbatim>\<open>shutil.copyfile(src, dst)\<close>: the source must be a file other than the destination, the
  destination a name in an existing directory and not itself a directory.
\<close>

definition copyfile :: "fs \<Rightarrow> path \<Rightarrow> path \<Rightarrow> py_error + fs" where
  "copyfile t src dst =
     (if src = dst \<and> t src \<noteq> None then Inl SameFileError
      else case t src of
        None \<Rightarrow> Inl FileNotFoundError
      | Some Dir \<Rightarrow> Inl IsADirectoryError
      | Some (File content) \<Rightarrow>
          (if t dst = Some Dir then Inl IsADirectoryError
           else if dst = [] \<or> t (butlast dst) = None then Inl FileNotFoundError
           else if is_file t (butlast dst) then Inl NotADirectoryError
           else Inr (t(dst \<mapsto> File content))))"

text \<open>\<^verbatim>\<open>open(name)\<close> followed by the iteration over the lines of the file.\<close>

definition read_lines :: "fs \<Rightarrow> path \<Rightarrow> py_error + string list" where
  "read_lines t p =
     (case t p of
        None \<Rightarrow> Inl FileNotFoundError
      | Some Dir \<Rightarrow> Inl IsADirectoryError
      | Some (File content) \<Rightarrow> Inr content)"

section \<open>parseDMMScores\<close>

text \<open>
  \<^verbatim>\<open>
  def parseDMMScores(self, pdbFile):
      DMMDic = {}
      with open(pdbFile) as f:
          for line in f:
              if line.startswith('ATOM') or line.startswith('HETATM'):
                  resId = '{}:{}'.format(line[21].strip(), line[22:26].strip())
                  if not resId in DMMDic:
                    DMMScore = line[60:66].strip()
                    DMMDic[resId] = DMMScore
      return DMMDic
  \<close>
  The dictionary is a map from the key \<^verbatim>\<open>chain:residue\<close> to the score text. The file is the
  list of its lines, as the iteration over \<^verbatim>\<open>f\<close> yields them (each with its line end).
\<close>

type_synonym score_dict = "string \<rightharpoonup> string"

definition is_record_line :: "string \<Rightarrow> bool" where
  "is_record_line line = (startswith line ''ATOM'' \<or> startswith line ''HETATM'')"

text \<open>The key \<^verbatim>\<open>'{}:{}'.format(line[21].strip(), line[22:26].strip())\<close>.\<close>

definition resId :: "string \<Rightarrow> py_error + string" where
  "resId line =
     (case py_index line 21 of
        Inl e \<Rightarrow> Inl e
      | Inr chain \<Rightarrow> Inr (strip chain @ '':'' @ strip (py_slice line 22 26)))"

text \<open>The score \<^verbatim>\<open>line[60:66].strip()\<close>.\<close>

definition DMMScore :: "string \<Rightarrow> string" where
  "DMMScore line = strip (py_slice line 60 66)"

text \<open>One pass of the loop body, then the rest of the lines.\<close>

fun parse_lines :: "score_dict \<Rightarrow> string list \<Rightarrow> py_error + score_dict" where
  "parse_lines DMMDic [] = Inr DMMDic"
| "parse_lines DMMDic (line # rest) =
     (if is_record_line line then
        (case resId line of
           Inl e \<Rightarrow> Inl e
         | Inr k \<Rightarrow>
             (if DMMDic k = None
              then parse_lines (DMMDic(k \<mapsto> DMMScore line)) rest
              else parse_lines DMMDic rest))
      else parse_lines DMMDic rest)"

text \<open>The function, with the working directory of the process and the file system.\<close>

definition parseDMMScores :: "string \<Rightarrow> fs \<Rightarrow> string \<Rightarrow> py_error + score_dict" where
  "parseDMMScores cwd t pdbFile =
     (case read_lines t (resolve cwd pdbFile) of
        Inl e \<Rightarrow> Inl e
      | Inr lines \<Rightarrow> parse_lines Map.empty lines)"

section \<open>The protocol object\<close>

text \<open>
  What the methods read from \<^verbatim>\<open>self\<close>, from \<^verbatim>\<open>Plugin\<close> and from the process. A pointer
  parameter that is empty (or an attribute that was never set) is \<open>None\<close>; using it raises
  \<^verbatim>\<open>AttributeError\<close>. Floating-point values are only handed on, never computed with.
\<close>

type_synonym shifts = "real \<times> real \<times> real"

record volume =
  vol_fileName :: string
  vol_samplingRate :: real
  vol_originShifts :: shifts

record atom_struct =
  as_fileName :: string
  as_volume :: "volume option"

record protocol =
  DMMBinary :: string
  condaActivationCmd :: string
  protocolActivationCommand :: string
  workingDir :: string
  getcwd :: string
  objId :: int
  inputVolume :: "volume option"
  inputAtomStruct :: "atom_struct option"
  inputSeq :: string
  af2Structure :: "string option"
  contourLevel :: string
  chimeraResampling :: "bool option"

text \<open>
  \<open>vol_originShifts\<close> is the value of \<^verbatim>\<open>getOrigin(force=True).getShifts()\<close>, \<open>af2Structure\<close>
  the file name of the AlphaFold structure when one is selected, and \<open>contourLevel\<close> the text
  the f-string prints for \<^verbatim>\<open>self.contourLevel.get()\<close>.
\<close>

definition attr :: "'a option \<Rightarrow> py_error + 'a" where
  "attr x = (case x of None \<Rightarrow> Inl AttributeError | Some v \<Rightarrow> Inr v)"

text \<open>
  The path helpers of the workflow engine: \<^verbatim>\<open>_getPath(*paths)\<close> is
  \<^verbatim>\<open>os.path.join(workingDir, *paths)\<close>, \<^verbatim>\<open>_getExtraPath\<close> and \<^verbatim>\<open>_getTmpPath\<close> put
  \<^verbatim>\<open>extra\<close> and \<^verbatim>\<open>tmp\<close> in front.
\<close>

definition getPath :: "protocol \<Rightarrow> string list \<Rightarrow> string" where
  "getPath self paths = join (workingDir self) paths"

definition getExtraPath :: "protocol \<Rightarrow> string list \<Rightarrow> string" where
  "getExtraPath self paths = getPath self (''extra'' # paths)"

definition getTmpPath :: "protocol \<Rightarrow> string list \<Rightarrow> string" where
  "getTmpPath self paths = getPath self (''tmp'' # paths)"

text \<open>
  \<^verbatim>\<open>
  def _getInputVolume(self):
    if self.inputVolume.get() is None:
      fnVol = self.inputAtomStruct.get().getVolume()
    else:
      fnVol = self.inputVolume.get()
    return fnVol
  \<close>
  The caller then reads an attribute of the result, which raises when it is \<^verbatim>\<open>None\<close>.
\<close>

definition getInputVolume :: "protocol \<Rightarrow> py_error + volume" where
  "getInputVolume self =
     (case inputVolume self of
        None \<Rightarrow>
          (case attr (inputAtomStruct self) of
             Inl e \<Rightarrow> Inl e
           | Inr a \<Rightarrow> attr (as_volume a))
      | Some v \<Rightarrow> Inr v)"

definition getVolumeFile :: "protocol \<Rightarrow> py_error + string" where
  "getVolumeFile self =
     (case getInputVolume self of
        Inl e \<Rightarrow> Inl e
      | Inr v \<Rightarrow> Inr (abspath (getcwd self) (vol_fileName v)))"

definition getSequenceFile :: "protocol \<Rightarrow> string" where
  "getSequenceFile self = inputSeq self"

text \<open>
  \<^verbatim>\<open>
  def getLocalVolumeFile(self):
      oriName = os.path.basename(os.path.splitext(self.getVolumeFile())[0])
      return self._getExtraPath('{}_{}.mrc'.format(oriName, self.getObjId()))
  def getVolumeName(self):
      return os.path.basename(os.path.splitext(self.getLocalVolumeFile())[0])
  \<close>
\<close>

definition getLocalVolumeFile :: "protocol \<Rightarrow> py_error + string" where
  "getLocalVolumeFile self =
     (case getVolumeFile self of
        Inl e \<Rightarrow> Inl e
      | Inr vf \<Rightarrow>
          (let oriName = basename (fst (splitext vf))
           in Inr (getExtraPath self [oriName @ ''_'' @ str_int (objId self) @ ''.mrc''])))"

definition getVolumeName :: "protocol \<Rightarrow> py_error + string" where
  "getVolumeName self =
     (case getLocalVolumeFile self of
        Inl e \<Rightarrow> Inl e
      | Inr lv \<Rightarrow> Inr (basename (fst (splitext lv))))"

text \<open>
  \<^verbatim>\<open>
  def getLocalSequenceFile(self):
      oriName = os.path.basename(os.path.splitext(self.getSequenceFile())[0])
      extrapath = self._getExtraPath('{}_{}.fasta'.format(oriName, self.getObjId()))
      ...
      shutil.copyfile(self.getSequenceFile(),os.path.abspath(extrapath))
      return extrapath
  \<close>
  The sequence file is copied, so the method returns the file system with the name.
\<close>

definition getLocalSequenceFile :: "protocol \<Rightarrow> fs \<Rightarrow> py_error + string \<times> fs" where
  "getLocalSequenceFile self t =
     (let oriName = basename (fst (splitext (getSequenceFile self)));
          extrapath = getExtraPath self [oriName @ ''_'' @ str_int (objId self) @ ''.fasta'']
      in case copyfile t (resolve (getcwd self) (getSequenceFile self))
                         (resolve (getcwd self) (abspath (getcwd self) extrapath)) of
           Inl e \<Rightarrow> Inl e
         | Inr t' \<Rightarrow> Inr (extrapath, t'))"

section \<open>convertInputStep\<close>

text \<open>
  \<^verbatim>\<open>
  def convertInputStep(self):
      inVol = self._getInputVolume()
      inVolFile, inVolSR = inVol.getFileName(), inVol.getSamplingRate()
      mrcFile = self._getTmpPath('inpVolume.mrc')
      ImageHandler().convert(inVolFile, mrcFile)
      Ccp4Header.fixFile(mrcFile, mrcFile, inVol.getOrigin(force=True).getShifts(),
                         inVolSR, Ccp4Header.START)
      Ccp4Header.fixFile(mrcFile, self.getLocalVolumeFile(), inVol.getOrigin(force=True).getShifts(),
                         inVolSR, Ccp4Header.ORIGIN)
  \<close>
  The step only calls the image library. A call is a value; the library is a function that
  says, for a call, whether it raises. The step returns the calls it made, in order, and
  stops at the first one that raises.
\<close>

datatype header_mode = START | ORIGIN

datatype call =
    Convert string string
  | FixFile string string shifts real header_mode

type_synonym library = "call \<Rightarrow> py_error option"

fun run_calls :: "library \<Rightarrow> call list \<Rightarrow> call list \<Rightarrow> py_error + call list" where
  "run_calls lib made [] = Inr made"
| "run_calls lib made (c # cs) =
     (case lib c of
        Some e \<Rightarrow> Inl e
      | None \<Rightarrow> run_calls lib (made @ [c]) cs)"

definition convertInputStep :: "protocol \<Rightarrow> library \<Rightarrow> py_error + call list" where
  "convertInputStep self lib =
     (case getInputVolume self of
        Inl e \<Rightarrow> Inl e
      | Inr inVol \<Rightarrow>
          (let inVolFile = vol_fileName inVol;
               inVolSR = vol_samplingRate inVol;
               mrcFile = getTmpPath self [''inpVolume.mrc'']
           in case run_calls lib []
                     [Convert inVolFile mrcFile,
                      FixFile mrcFile mrcFile (vol_originShifts inVol) inVolSR START] of
                Inl e \<Rightarrow> Inl e
              | Inr made \<Rightarrow>
                  (case getLocalVolumeFile self of
                     Inl e \<Rightarrow> Inl e
                   | Inr localVol \<Rightarrow>
                       run_calls lib made
                         [FixFile mrcFile localVol (vol_originShifts inVol) inVolSR ORIGIN])))"

text \<open>The header fixes among the calls of a run.\<close>

fun is_fix :: "call \<Rightarrow> bool" where
  "is_fix (FixFile _ _ _ _ _) = True"
| "is_fix (Convert _ _) = False"

section \<open>getDMMArgs and DMMStep\<close>

text \<open>
  \<^verbatim>\<open>
  def getDMMArgs(self):
      map_path = os.path.abspath(self.getLocalVolumeFile())
      fasta_path = os.path.abspath(self.getLocalSequenceFile())
      alphafold_pdb_path = os.path.abspath(self.af2Structure.get().getFileName()) if self.af2Structure.get() else ""
      contour = self.contourLevel.get()
      output_path = os.path.abspath(self._getTmpPath('predictions'))
      args = f" -m {map_path} -f {fasta_path} -A {alphafold_pdb_path} -c {contour} -o {output_path} -t 10 -T 10"
      return args
  \<close>
\<close>

definition alphafold_pdb_path :: "protocol \<Rightarrow> string" where
  "alphafold_pdb_path self =
     (case af2Structure self of
        Some f \<Rightarrow> abspath (getcwd self) f
      | None \<Rightarrow> [])"

definition output_path :: "protocol \<Rightarrow> string" where
  "output_path self = abspath (getcwd self) (getTmpPath self [''predictions''])"

definition getDMMArgs :: "protocol \<Rightarrow> fs \<Rightarrow> py_error + string \<times> fs" where
  "getDMMArgs self t =
     (case getLocalVolumeFile self of
        Inl e \<Rightarrow> Inl e
      | Inr lv \<Rightarrow>
          (case getLocalSequenceFile self t of
             Inl e \<Rightarrow> Inl e
           | Inr (ls, t') \<Rightarrow>
               (let map_path = abspath (getcwd self) lv;
                    fasta_path = abspath (getcwd self) ls;
                    contour = contourLevel self
                in Inr ('' -m '' @ map_path @ '' -f '' @ fasta_path
                          @ '' -A '' @ alphafold_pdb_path self @ '' -c '' @ contour
                          @ '' -o '' @ output_path self @ '' -t 10 -T 10'', t'))))"

text \<open>
  \<^verbatim>\<open>
  def DMMStep(self):
      program_path = Plugin._DMMBinary
      args = self.getDMMArgs()
      ...
      envActivationCommand = "{} {}".format(Plugin.getCondaActivationCmd(), Plugin.getProtocolActivationCommand('dmm'))
      fullProgram = '{} && {}/dmm_full_multithreads.sh'.format(envActivationCommand,Plugin._DMMBinary)
      if 'dmm_full_multithreads.sh' not in args:
          args = '-p {}{}'.format(Plugin._DMMBinary, args)
      self.runJob(fullProgram,args, cwd=program_path)
      outDir = self._getExtraPath('predictions')
      DMMDir = os.path.join(Plugin._DMMBinary, 'Predict_Result', self.getVolumeName())
      shutil.copytree(DMMDir, outDir)
      shutil.rmtree(DMMDir)
  \<close>
  The subprocess is a function from the job and the file system to its exit status and the
  file system it leaves; \<^verbatim>\<open>runJob\<close> raises on a status other than 0.
\<close>

record job =
  program :: string
  arguments :: string
  job_cwd :: string

type_synonym process = "job \<Rightarrow> fs \<Rightarrow> int \<times> fs"

definition runJob :: "process \<Rightarrow> job \<Rightarrow> fs \<Rightarrow> py_error + fs" where
  "runJob exec j t = (case exec j t of (status, t') \<Rightarrow>
                        if status \<noteq> 0 then Inl (JobError status) else Inr t')"

text \<open>Lines 117 and 118: the arguments handed to \<^verbatim>\<open>runJob\<close>.\<close>

definition job_args :: "string \<Rightarrow> string \<Rightarrow> string" where
  "job_args binary args =
     (if \<not> py_in ''dmm_full_multithreads.sh'' args then ''-p '' @ binary @ args else args)"

definition DMM_job :: "protocol \<Rightarrow> string \<Rightarrow> job" where
  "DMM_job self args =
     (let program_path = DMMBinary self;
          envActivationCommand = condaActivationCmd self @ '' '' @ protocolActivationCommand self;
          fullProgram = envActivationCommand @ '' && '' @ DMMBinary self @ ''/dmm_full_multithreads.sh''
      in \<lparr>program = fullProgram, arguments = job_args (DMMBinary self) args,
          job_cwd = program_path\<rparr>)"

text \<open>The step up to the return of \<^verbatim>\<open>runJob\<close>.\<close>

definition run_predictor :: "protocol \<Rightarrow> process \<Rightarrow> fs \<Rightarrow> py_error + fs" where
  "run_predictor self exec t =
     (case getDMMArgs self t of
        Inl e \<Rightarrow> Inl e
      | Inr (args, t0) \<Rightarrow> runJob exec (DMM_job self args) t0)"

definition outDir :: "protocol \<Rightarrow> string" where
  "outDir self = getExtraPath self [''predictions'']"

definition DMMDir :: "protocol \<Rightarrow> py_error + string" where
  "DMMDir self =
     (case getVolumeName self of
        Inl e \<Rightarrow> Inl e
      | Inr vn \<Rightarrow> Inr (join (DMMBinary self) [''Predict_Result'', vn]))"

text \<open>The rest of the step: the copy of the predictor's directory and its removal.\<close>

definition relocate :: "protocol \<Rightarrow> fs \<Rightarrow> py_error + fs" where
  "relocate self t1 =
     (case DMMDir self of
        Inl e \<Rightarrow> Inl e
      | Inr d \<Rightarrow>
          (case copytree t1 (resolve (getcwd self) d) (resolve (getcwd self) (outDir self)) of
             Inl e \<Rightarrow> Inl e
           | Inr t2 \<Rightarrow> rmtree t2 (resolve (getcwd self) d)))"

definition DMMStep :: "protocol \<Rightarrow> process \<Rightarrow> fs \<Rightarrow> py_error + fs" where
  "DMMStep self exec t =
     (case run_predictor self exec t of
        Inl e \<Rightarrow> Inl e
      | Inr t1 \<Rightarrow> relocate self t1)"

section \<open>createOutputStep\<close>

text \<open>
  Modelled from the spec: the low-level dictionary of a structural file and
  \<^verbatim>\<open>addScipionAttribute\<close>, which the protocol imports from \<^verbatim>\<open>pwem.convert.atom_struct\<close>.
  The dictionary holds the residue keys \<^verbatim>\<open>chain:residue\<close> of the file's own chain and
  residue columns, in file order, and the attribute categories added to it, each a list of
  rows (key, value). The merge adds a category with the caller's name; it has one row for
  each residue of the file that the score map binds, with the map's value. A residue of the file
  that the map does not bind gets no row, and a key of the map that is no residue of the
  file is dropped.
\<close>

record cif_dict =
  residues :: "string list"
  categories :: "(string \<times> (string \<times> string) list) list"

definition addScipionAttribute :: "cif_dict \<Rightarrow> score_dict \<Rightarrow> string \<Rightarrow> cif_dict" where
  "addScipionAttribute cifDic attrDic attrName =
     cifDic\<lparr>categories := categories cifDic @
       [(attrName,
         List.map_filter (\<lambda>k. map_option (\<lambda>v. (k, v)) (attrDic k)) (remdups (residues cifDic)))]\<rparr>"



text \<open>
  \<^verbatim>\<open>
  def createOutputStep(self):
      outStructFileName = self._getPath('outputStructure.cif')
      outDMMFile = os.path.abspath(self._getTmpPath('predictions/DMM_score_w9.pdb'))
      ASH = AtomicStructHandler()
      DMMScoresDic = self.parseDMMScores(outDMMFile)
      inpAS = toCIF(self.inputAtomStruct.get().getFileName(), self._getTmpPath('inputStruct.cif'))
      cifDic = ASH.readLowLevel(inpAS)
      cifDic = addScipionAttribute(cifDic, DMMScoresDic, self._ATTRNAME)
      ASH._writeLowLevel(outStructFileName, cifDic)
      AS = AtomStruct(filename=outStructFileName)
      outVol = self._getInputVolume().clone()
      outVol.setLocation(self.getLocalVolumeFile())
      if self.chimeraResampling and self._getInputVolume().getSamplingRate() != 1.0 and chimeraInstalled():
          outVol.setSamplingRate(1.0)
      AS.setVolume(outVol)
      self._defineOutputs(**{self._OUTNAME: AS})
  \<close>
  The structure library says what each of its calls returns. The step returns the file
  accesses it made, in order, also when it raises, and its output when it does not.
\<close>

definition ATTRNAME :: string where
  "ATTRNAME = ''DMM_score''"

datatype io_call =
    Open string
  | ToCIF string string
  | ReadLowLevel string
  | WriteLowLevel string

text \<open>The names that a file access reads: \<^verbatim>\<open>toCIF\<close> reads its first argument.\<close>

fun read_names :: "io_call \<Rightarrow> string list" where
  "read_names (Open name) = [name]"
| "read_names (ToCIF inFile outFile) = [inFile]"
| "read_names (ReadLowLevel name) = [name]"
| "read_names (WriteLowLevel name) = []"

record struct_lib =
  toCIF :: "string \<Rightarrow> string \<Rightarrow> py_error + string"
  readLowLevel :: "string \<Rightarrow> py_error + cif_dict"
  writeLowLevel :: "string \<Rightarrow> cif_dict \<Rightarrow> py_error option"
  chimeraInstalled :: bool

record step_output =
  out_fileName :: string
  out_cifDic :: cif_dict
  out_volume :: volume

definition outDMMFile :: "protocol \<Rightarrow> string" where
  "outDMMFile self = abspath (getcwd self) (getTmpPath self [''predictions/DMM_score_w9.pdb''])"

text \<open>Lines 150 to 157, after the dictionary is written.\<close>

definition define_output :: "protocol \<Rightarrow> struct_lib \<Rightarrow> string \<Rightarrow> cif_dict \<Rightarrow> py_error + step_output" where
  "define_output self lib outStructFileName cifDic =
     (case getInputVolume self of
        Inl e \<Rightarrow> Inl e
      | Inr inVol \<Rightarrow>
          (case getLocalVolumeFile self of
             Inl e \<Rightarrow> Inl e
           | Inr lv \<Rightarrow>
               (case attr (chimeraResampling self) of
                  Inl e \<Rightarrow> Inl e
                | Inr resampling \<Rightarrow>
                    (let outVol = inVol\<lparr>vol_fileName := lv\<rparr>;
                         outVol' = (if resampling \<and> vol_samplingRate inVol \<noteq> 1 \<and> chimeraInstalled lib
                                    then outVol\<lparr>vol_samplingRate := 1\<rparr> else outVol)
                     in Inr \<lparr>out_fileName = outStructFileName, out_cifDic = cifDic,
                             out_volume = outVol'\<rparr>))))"

definition createOutputStep ::
  "protocol \<Rightarrow> struct_lib \<Rightarrow> fs \<Rightarrow> io_call list \<times> (py_error + step_output)" where
  "createOutputStep self lib t =
     (let outStructFileName = getPath self [''outputStructure.cif''];
          f = outDMMFile self
      in case parseDMMScores (getcwd self) t f of
           Inl e \<Rightarrow> ([Open f], Inl e)
         | Inr DMMScoresDic \<Rightarrow>
             (case attr (inputAtomStruct self) of
                Inl e \<Rightarrow> ([Open f], Inl e)
              | Inr a \<Rightarrow>
                  (let tmpCif = getTmpPath self [''inputStruct.cif''];
                       c1 = [Open f, ToCIF (as_fileName a) tmpCif]
                   in case toCIF lib (as_fileName a) tmpCif of
                        Inl e \<Rightarrow> (c1, Inl e)
                      | Inr inpAS \<Rightarrow>
                          (case readLowLevel lib inpAS of
                             Inl e \<Rightarrow> (c1 @ [ReadLowLevel inpAS], Inl e)
                           | Inr cifDic \<Rightarrow>
                               (let cifDic' = addScipionAttribute cifDic DMMScoresDic ATTRNAME;
                                    c3 = c1 @ [ReadLowLevel inpAS, WriteLowLevel outStructFileName]
                                in case writeLowLevel lib outStructFileName cifDic' of
                                     Some e \<Rightarrow> (c3, Inl e)
                                   | None \<Rightarrow>
                                       (c3, define_output self lib outStructFileName cifDic'))))))"

section \<open>chimeraResample\<close>

text \<open>
  \<^verbatim>\<open>
  def chimeraResampleScript(self, inVolFile, newSampling, outFile):
      scriptFn = self._getExtraPath('resampleVolume.cxc')
      with open(scriptFn, 'w') as f:
          f.write('cd %s\n' % os.getcwd())
          f.write("open %s\n" % inVolFile)
          f.write('vol resample #1 spacing {}\n'.format(newSampling))
          f.write('save {} model #2\n'.format(outFile))
          f.write('exit\n')
      return scriptFn

  def chimeraResample(self, inVolFile, newSR, outFile):
      with weakImport("chimera"):
          from chimera import Plugin as chimeraPlugin
          resampleScript = self.chimeraResampleScript(inVolFile, newSampling=newSR, outFile=outFile)
          chimeraPlugin.runChimeraProgram(chimeraPlugin.getProgram() + ' --nogui --silent',
                                          resampleScript, cwd=os.getcwd())
          while not os.path.exists(outFile):
            time.sleep(1)
      return outFile
  \<close>
  \<^verbatim>\<open>weakImport("chimera")\<close> swallows the \<^verbatim>\<open>ImportError\<close> of a missing \<^verbatim>\<open>chimera\<close> package:
  the block is left at the import and the method goes on after it. The world of the method
  says whether the import works, whether writing the script and running the program raise,
  and what the \<open>n\<close>-th call of \<^verbatim>\<open>os.path.exists(outFile)\<close> answers. The method may run for
  ever: its result is \<open>None\<close> then. When it returns, the result holds the returned name and
  the arguments of the calls of \<^verbatim>\<open>time.sleep\<close>, in order.
\<close>

record chimera_world =
  import_works :: bool
  script_error :: "py_error option"
  program_error :: "py_error option"
  exists_at :: "nat \<Rightarrow> bool"

definition chimeraResampleScript :: "protocol \<Rightarrow> string \<Rightarrow> string \<Rightarrow> string \<Rightarrow> string \<times> string list" where
  "chimeraResampleScript self inVolFile newSampling outFile =
     (getExtraPath self [''resampleVolume.cxc''],
      [''cd '' @ getcwd self, ''open '' @ inVolFile,
       ''vol resample #1 spacing '' @ newSampling,
       ''save '' @ outFile @ '' model #2'', ''exit''])"

text \<open>The loop: \<open>n\<close> calls of \<^verbatim>\<open>exists\<close> have answered no so far.\<close>

partial_function (option) poll :: "(nat \<Rightarrow> bool) \<Rightarrow> nat \<Rightarrow> nat option" where
  "poll ex n = (if \<not> ex n then poll ex (Suc n) else Some n)"

declare poll.simps [code]

definition chimeraResample ::
  "chimera_world \<Rightarrow> string \<Rightarrow> (py_error + string \<times> nat list) option" where
  "chimeraResample w outFile =
     (if \<not> import_works w then Some (Inr (outFile, []))
      else case script_error w of
        Some e \<Rightarrow> Some (Inl e)
      | None \<Rightarrow>
          (case program_error w of
             Some e \<Rightarrow> Some (Inl e)
           | None \<Rightarrow>
               (case poll (exists_at w) 0 of
                  None \<Rightarrow> None
                | Some n \<Rightarrow> Some (Inr (outFile, replicate n 1)))))"

section \<open>Sample data\<close>

text \<open>
  A score file with two atoms of residue 10 and one of residue 11 of chain A, a file that
  ends in a cut record, and a file with a line that is no record.
\<close>

definition line_a :: string where
  "line_a = ''ATOM      1  N   MET A  10      11.104  13.207  10.000  1.00  0.50           N''"

definition line_b :: string where
  "line_b = ''ATOM      2  CA  MET A  10      12.560  13.207  10.000  1.00  0.90           C''"

definition line_c :: string where
  "line_c = ''ATOM      3  N   GLY A  11      13.100  14.500  10.000  1.00  0.30           N''"

definition score_files :: fs where
  "score_files =
     [[''scores.pdb''] \<mapsto> File [line_a, line_b, line_c],
      [''cut.pdb''] \<mapsto> File [line_a, ''ATOM      2  CA''],
      [''remark.pdb''] \<mapsto> File [line_a, ''REMARK scores'', line_c],
      [''plain.pdb''] \<mapsto> File [line_a, line_c]]"

text \<open>A run of the protocol, the file system before its predictor step, and an image
  library whose calls all return.\<close>

definition sample_protocol :: protocol where
  "sample_protocol =
     \<lparr>DMMBinary = ''/opt/DMM'', condaActivationCmd = ''eval conda'',
      protocolActivationCommand = ''conda activate dmm'',
      workingDir = ''Runs/000002_ProtDMM'', getcwd = ''/home/u/proj'', objId = 2,
      inputVolume = Some \<lparr>vol_fileName = ''Runs/000001_Import/extra/vol1.mrc'',
                           vol_samplingRate = 2, vol_originShifts = (0, 0, 0)\<rparr>,
      inputAtomStruct = Some \<lparr>as_fileName = ''Runs/000001_Import/extra/model.cif'', as_volume = None\<rparr>,
      inputSeq = ''/data/seq.fasta'', af2Structure = None, contourLevel = ''0.0'',
      chimeraResampling = Some False\<rparr>"

definition sample_fs :: fs where
  "sample_fs =
     [[''data''] \<mapsto> Dir, [''data'', ''seq.fasta''] \<mapsto> File [''>s''],
      [''home'', ''u'', ''proj'', ''Runs'', ''000002_ProtDMM'', ''extra''] \<mapsto> Dir]"

definition all_fine :: library where
  "all_fine c = None"

text \<open>Answers of \<^verbatim>\<open>os.path.exists\<close>: never, and from the third call on. A world without the
  \<^verbatim>\<open>chimera\<close> package in which the file never appears, and one where it appears late.\<close>

definition never :: "nat \<Rightarrow> bool" where "never n = False"

definition third_time :: "nat \<Rightarrow> bool" where "third_time n = (2 \<le> n)"

definition chimera_missing :: chimera_world where
  "chimera_missing = \<lparr>import_works = False, script_error = None, program_error = None, exists_at = never\<rparr>"

definition chimera_slow :: chimera_world where
  "chimera_slow = \<lparr>import_works = True, script_error = None, program_error = None, exists_at = third_time\<rparr>"

text \<open>
  Subprocesses that end with status 0 and change nothing, that end with status 1, and that
  write the predictor's result; the arguments and the file system of the sample run after
  \<open>getDMMArgs\<close>.
\<close>

definition idle_process :: process where
  "idle_process j t = (0, t)"

definition failing_process :: process where
  "failing_process j t = (1, t)"


definition sample_args_text :: string where
  "sample_args_text = '' -m /home/u/proj/Runs/000002_ProtDMM/extra/vol1_2.mrc -f /home/u/proj/Runs/000002_ProtDMM/extra/seq_2.fasta -A  -c 0.0 -o /home/u/proj/Runs/000002_ProtDMM/tmp/predictions -t 10 -T 10''"

definition sample_fs0 :: fs where
  "sample_fs0 = sample_fs([''home'', ''u'', ''proj'', ''Runs'', ''000002_ProtDMM'', ''extra'', ''seq_2.fasta'']
                   \<mapsto> File [''>s''])"

text \<open>
  A structure library whose calls all return, with a structural file of three residues, and
  the file system with the predictor's scores in \<^verbatim>\<open>tmp/predictions\<close>.
\<close>

definition sample_lib :: struct_lib where
  "sample_lib =
     \<lparr>toCIF = (\<lambda>inFile outFile. Inr inFile),
      readLowLevel = (\<lambda>name. Inr \<lparr>residues = [''A:10'', ''A:10'', ''A:11'', ''B:5''], categories = []\<rparr>),
      writeLowLevel = (\<lambda>name cifDic. None),
      chimeraInstalled = False\<rparr>"

definition sample_fs_scores :: fs where
  "sample_fs_scores =
     [[''home'', ''u'', ''proj'', ''Runs'', ''000002_ProtDMM'', ''tmp'', ''predictions'', ''DMM_score_w9.pdb'']
        \<mapsto> File [line_a, line_b, line_c]]"

section \<open>Properties of parseDMMScores\<close>

lemma resId_ok_iff: "(\<exists>k. resId line = Inr k) \<longleftrightarrow> 22 \<le> length line"
  by (auto simp: resId_def py_index_def)

lemma resId_error: "resId line = Inl e \<Longrightarrow> e = IndexError \<and> length line < 22"
  by (auto simp: resId_def py_index_def split: if_splits)

lemma parse_lines_append:
  "parse_lines d (xs @ ys) =
     (case parse_lines d xs of Inl e \<Rightarrow> Inl e | Inr d' \<Rightarrow> parse_lines d' ys)"
  by (induction xs arbitrary: d) (auto split: sum.splits)

text \<open>A key that is bound keeps its value to the end of the loop.\<close>

lemma parse_lines_keeps:
  "parse_lines d ls = Inr d' \<Longrightarrow> d k = Some v \<Longrightarrow> d' k = Some v"
proof (induction ls arbitrary: d)
  case Nil
  then show ?case by simp
next
  case (Cons line rest)
  show ?case
  proof (cases "is_record_line line")
    case False
    with Cons show ?thesis by simp
  next
    case True
    with Cons.prems obtain k' where k': "resId line = Inr k'"
      by (auto split: sum.splits)
    show ?thesis
    proof (cases "d k' = None")
      case True
      with Cons.prems \<open>is_record_line line\<close> k'
      have "parse_lines (d(k' \<mapsto> DMMScore line)) rest = Inr d'" by simp
      moreover from True Cons.prems have "(d(k' \<mapsto> DMMScore line)) k = Some v" by auto
      ultimately show ?thesis by (rule Cons.IH)
    next
      case False
      with Cons.prems \<open>is_record_line line\<close> k'
      have "parse_lines d rest = Inr d'" by simp
      then show ?thesis using Cons.prems(2) by (rule Cons.IH)
    qed
  qed
qed

text \<open>A key that no record of the lines has stays unbound.\<close>

lemma parse_lines_unbound:
  "parse_lines d ls = Inr d' \<Longrightarrow> d k = None \<Longrightarrow>
   \<forall>l \<in> set ls. is_record_line l \<longrightarrow> resId l \<noteq> Inr k \<Longrightarrow> d' k = None"
proof (induction ls arbitrary: d)
  case Nil
  then show ?case by simp
next
  case (Cons line rest)
  from Cons.prems(3)
  have rest: "\<forall>l \<in> set rest. is_record_line l \<longrightarrow> resId l \<noteq> Inr k" by simp
  show ?case
  proof (cases "is_record_line line")
    case False
    with Cons show ?thesis by simp
  next
    case True
    with Cons.prems obtain k' where k': "resId line = Inr k'"
      by (auto split: sum.splits)
    with True Cons.prems(3) have ne: "k' \<noteq> k" by auto
    show ?thesis
    proof (cases "d k' = None")
      case True
      with Cons.prems \<open>is_record_line line\<close> k'
      have "parse_lines (d(k' \<mapsto> DMMScore line)) rest = Inr d'" by simp
      moreover from ne Cons.prems have "(d(k' \<mapsto> DMMScore line)) k = None" by auto
      ultimately show ?thesis using rest by (rule Cons.IH)
    next
      case False
      with Cons.prems \<open>is_record_line line\<close> k'
      have "parse_lines d rest = Inr d'" by simp
      then show ?thesis using Cons.prems(2) rest by (rule Cons.IH)
    qed
  qed
qed

lemma parse_lines_error_iff:
  "(\<exists>e. parse_lines d ls = Inl e) \<longleftrightarrow> (\<exists>l \<in> set ls. is_record_line l \<and> length l < 22)"
proof (induction ls arbitrary: d)
  case Nil
  then show ?case by simp
next
  case (Cons line rest)
  show ?case
  proof (cases "is_record_line line")
    case False
    with Cons show ?thesis by auto
  next
    case True
    show ?thesis
    proof (cases "resId line")
      case (Inl e)
      with True resId_error[OF Inl] show ?thesis by auto
    next
      case (Inr k)
      then have "22 \<le> length line" using resId_ok_iff by blast
      with True Inr Cons.IH show ?thesis by auto
    qed
  qed
qed

lemma parse_lines_error_kind: "parse_lines d ls = Inl e \<Longrightarrow> e = IndexError"
  by (induction d ls rule: parse_lines.induct) (auto split: if_splits sum.splits dest: resId_error)

lemma parse_lines_skip:
  "\<not> is_record_line line \<Longrightarrow> parse_lines d (pre @ line # post) = parse_lines d (pre @ post)"
  by (simp add: parse_lines_append split: sum.splits)

lemma parse_lines_first:
  assumes "parse_lines d (pre @ line # post) = Inr d'" "d k = None"
      and "is_record_line line" "resId line = Inr k"
      and "\<forall>l \<in> set pre. is_record_line l \<longrightarrow> resId l \<noteq> Inr k"
  shows "d' k = Some (DMMScore line)"
proof -
  from assms(1) obtain d1 where d1: "parse_lines d pre = Inr d1"
    and rest: "parse_lines d1 (line # post) = Inr d'"
    by (auto simp: parse_lines_append split: sum.splits)
  from d1 assms(2,5) have "d1 k = None" by (rule parse_lines_unbound)
  with rest assms(3,4) have "parse_lines (d1(k \<mapsto> DMMScore line)) post = Inr d'" by simp
  then show ?thesis by (rule parse_lines_keeps) simp
qed

lemma sample_lines:
  "is_record_line line_a" "resId line_a = Inr ''A:10''" "DMMScore line_a = ''0.50''"
  "is_record_line line_b" "resId line_b = Inr ''A:10''" "DMMScore line_b = ''0.90''"
  "is_record_line line_c" "resId line_c = Inr ''A:11''" "DMMScore line_c = ''0.30''"
  by (simp_all add: line_a_def line_b_def line_c_def is_record_line_def startswith_def
        resId_def py_index_def DMMScore_def py_slice_def strip_def isspace_def)

lemma sample_resolve:
  "resolve ''/'' ''scores.pdb'' = [''scores.pdb'']"
  "resolve ''/'' ''cut.pdb'' = [''cut.pdb'']"
  "resolve ''/'' ''remark.pdb'' = [''remark.pdb'']"
  "resolve ''/'' ''plain.pdb'' = [''plain.pdb'']"
  by (simp_all add: resolve_def isabs_def startswith_def endswith_def join2_def
        norm_comps_def norm_step_def)

text \<open>
  Claim C2. Let a record line (one that begins with \<^verbatim>\<open>ATOM\<close> or \<^verbatim>\<open>HETATM\<close>) of the score file
  have the key \<open>k\<close> (chain and residue number, both stripped), and let no record line before
  it in the file have that key. Then the dictionary that \<open>parseDMMScores\<close> returns binds \<open>k\<close>
  to the stripped score field of that line, whatever lines follow it: the records of the same
  residue that come later, however many there are, do not overwrite the value.
\<close>

theorem parseDMMScores_first_record_wins:
  assumes "read_lines t (resolve cwd pdbFile) = Inr (pre @ line # post)"
      and "parseDMMScores cwd t pdbFile = Inr DMMDic"
      and "is_record_line line" and "resId line = Inr k"
      and "\<forall>l \<in> set pre. is_record_line l \<longrightarrow> resId l \<noteq> Inr k"
  shows "DMMDic k = Some (DMMScore line)"
  using assms parse_lines_first[of Map.empty pre line post DMMDic k]
  by (simp add: parseDMMScores_def)

theorem parseDMMScores_first_record_wins_witness:
  "read_lines score_files (resolve ''/'' ''scores.pdb'') = Inr ([] @ line_a # [line_b, line_c])
   \<and> is_record_line line_a \<and> resId line_a = Inr ''A:10'' \<and> resId line_b = Inr ''A:10''
   \<and> (\<exists>DMMDic. parseDMMScores ''/'' score_files ''scores.pdb'' = Inr DMMDic
          \<and> DMMDic ''A:10'' = Some ''0.50'')"
proof -
  have r: "read_lines score_files (resolve ''/'' ''scores.pdb'') = Inr ([] @ line_a # [line_b, line_c])"
    by (simp add: read_lines_def score_files_def sample_resolve)
  have "\<exists>DMMDic. parseDMMScores ''/'' score_files ''scores.pdb'' = Inr DMMDic"
    using r by (simp add: parseDMMScores_def sample_lines)
  then obtain DMMDic where p: "parseDMMScores ''/'' score_files ''scores.pdb'' = Inr DMMDic" ..
  have "DMMDic ''A:10'' = Some (DMMScore line_a)"
    using parseDMMScores_first_record_wins[OF r p sample_lines(1) sample_lines(2)] by simp
  with r p show ?thesis by (auto simp: sample_lines)
qed

text \<open>
  Claim C3, as stated, fails: a file whose second line is the cut record \<^verbatim>\<open>ATOM      2  CA\<close>
  makes \<open>parseDMMScores\<close> raise \<^verbatim>\<open>IndexError\<close> at \<^verbatim>\<open>line[21]\<close>; the line is not skipped.
\<close>

theorem parseDMMScores_cut_record_counterexample:
  "parseDMMScores ''/'' score_files ''cut.pdb'' = Inl IndexError"
  by (simp add: parseDMMScores_def read_lines_def score_files_def sample_resolve sample_lines
        is_record_line_def startswith_def resId_def py_index_def)

text \<open>
  Claim C3, amended. Only the lines that begin with \<^verbatim>\<open>ATOM\<close> or \<^verbatim>\<open>HETATM\<close> are considered:
  a line that begins with neither is skipped, that is, the result (dictionary or error) is the
  one for the file without that line. On the lines of a readable file the function raises
  exactly when a line that begins with \<^verbatim>\<open>ATOM\<close> or \<^verbatim>\<open>HETATM\<close> has fewer than 22 characters,
  and then it raises \<^verbatim>\<open>IndexError\<close>; a record line of 22 characters or more is processed
  whatever else it holds.
\<close>

theorem parseDMMScores_skips_other_lines:
  assumes "read_lines t (resolve cwd pdbFile) = Inr ls"
  shows "(\<forall>pre line post. ls = pre @ line # post \<and> \<not> is_record_line line \<longrightarrow>
            parseDMMScores cwd t pdbFile = parse_lines Map.empty (pre @ post))
       \<and> ((\<exists>e. parseDMMScores cwd t pdbFile = Inl e) \<longleftrightarrow>
            (\<exists>l \<in> set ls. is_record_line l \<and> length l < 22))
       \<and> (\<forall>e. parseDMMScores cwd t pdbFile = Inl e \<longrightarrow> e = IndexError)"
  using assms parse_lines_error_iff[of Map.empty ls]
  by (auto simp: parseDMMScores_def parse_lines_skip dest: parse_lines_error_kind)

theorem parseDMMScores_skips_other_lines_witness:
  "read_lines score_files (resolve ''/'' ''remark.pdb'') = Inr ([line_a] @ ''REMARK scores'' # [line_c])
   \<and> \<not> is_record_line ''REMARK scores''
   \<and> parseDMMScores ''/'' score_files ''remark.pdb'' = parseDMMScores ''/'' score_files ''plain.pdb''
   \<and> 22 \<le> length line_a \<and> 22 \<le> length line_c
   \<and> (\<forall>e. parseDMMScores ''/'' score_files ''remark.pdb'' \<noteq> Inl e)"
proof -
  have r: "read_lines score_files (resolve ''/'' ''remark.pdb'') = Inr ([line_a] @ ''REMARK scores'' # [line_c])"
    by (simp add: read_lines_def score_files_def sample_resolve)
  have n: "\<not> is_record_line ''REMARK scores''"
    by (simp add: is_record_line_def startswith_def)
  have len: "\<forall>l \<in> set ([line_a] @ ''REMARK scores'' # [line_c]). \<not> (is_record_line l \<and> length l < 22)"
    using n by (simp add: line_a_def line_c_def)
  have plain: "parseDMMScores ''/'' score_files ''plain.pdb'' = parse_lines Map.empty ([line_a] @ [line_c])"
    by (simp add: parseDMMScores_def read_lines_def score_files_def sample_resolve)
  note th = parseDMMScores_skips_other_lines[OF r]
  from th n have "parseDMMScores ''/'' score_files ''remark.pdb'' = parse_lines Map.empty ([line_a] @ [line_c])"
    by blast
  moreover from th len have "\<forall>e. parseDMMScores ''/'' score_files ''remark.pdb'' \<noteq> Inl e"
    by blast
  ultimately show ?thesis using r n plain by (simp add: line_a_def line_c_def)
qed

section \<open>Properties of the job arguments\<close>

text \<open>\<open>py_in\<close> is the substring test.\<close>

lemma py_in_iff: "py_in sub s \<longleftrightarrow> (\<exists>pre post. s = pre @ sub @ post)"
proof (induction s)
  case Nil
  then show ?case by simp
next
  case (Cons c cs)
  have "startswith (c # cs) sub \<longleftrightarrow> (\<exists>post. c # cs = sub @ post)"
    unfolding startswith_def by (metis append_eq_conv_conj append_take_drop_id)
  moreover have "(\<exists>pre post. c # cs = pre @ sub @ post) \<longleftrightarrow>
        (\<exists>post. c # cs = sub @ post) \<or> (\<exists>pre post. cs = pre @ sub @ post)"
  proof
    assume "\<exists>pre post. c # cs = pre @ sub @ post"
    then obtain pre post where e: "c # cs = pre @ sub @ post" by blast
    show "(\<exists>post. c # cs = sub @ post) \<or> (\<exists>pre post. cs = pre @ sub @ post)"
    proof (cases pre)
      case Nil
      with e show ?thesis by auto
    next
      case (Cons a pre')
      with e have "cs = pre' @ sub @ post" by simp
      then show ?thesis by blast
    qed
  next
    assume "(\<exists>post. c # cs = sub @ post) \<or> (\<exists>pre post. cs = pre @ sub @ post)"
    then show "\<exists>pre post. c # cs = pre @ sub @ post"
    proof
      assume "\<exists>post. c # cs = sub @ post"
      then obtain post where "c # cs = [] @ sub @ post" by auto
      then show ?thesis by blast
    next
      assume "\<exists>pre post. cs = pre @ sub @ post"
      then obtain pre post where "c # cs = (c # pre) @ sub @ post" by auto
      then show ?thesis by blast
    qed
  qed
  ultimately show ?case using Cons.IH by simp
qed

text \<open>
  Claim C1, as stated, fails in both directions: arguments that hold the launcher's name
  are handed on unchanged, and arguments that do not hold it get the prefix
  \<^verbatim>\<open>-p <binary>\<close>.
\<close>

theorem job_args_prefix_counterexample:
  "py_in ''dmm_full_multithreads.sh'' ''/x/dmm_full_multithreads.sh -m a''
   \<and> job_args ''/opt/DMM'' ''/x/dmm_full_multithreads.sh -m a'' = ''/x/dmm_full_multithreads.sh -m a''
   \<and> \<not> py_in ''dmm_full_multithreads.sh'' '' -m a''
   \<and> job_args ''/opt/DMM'' '' -m a'' = ''-p /opt/DMM -m a''"
  by (simp add: job_args_def startswith_def)

text \<open>
  Claim C1, amended. The arguments of the job are the argument string unchanged when the
  launcher's name \<^verbatim>\<open>dmm_full_multithreads.sh\<close> occurs in it, and the argument string with
  \<^verbatim>\<open>-p <binary>\<close> in front when it does not occur: the prefix is applied exactly when the
  launcher is not detected.
\<close>

theorem job_args_prefix:
  "arguments (DMM_job self args) =
     (if py_in ''dmm_full_multithreads.sh'' args then args else ''-p '' @ DMMBinary self @ args)
   \<and> (py_in ''dmm_full_multithreads.sh'' args \<longleftrightarrow>
        (\<exists>pre post. args = pre @ ''dmm_full_multithreads.sh'' @ post))"
  using py_in_iff[of "''dmm_full_multithreads.sh''" args]
  by (simp add: DMM_job_def job_args_def Let_def)

theorem job_args_prefix_witness:
  "arguments (DMM_job sample_protocol '' -m a'') = ''-p /opt/DMM -m a''
   \<and> arguments (DMM_job sample_protocol ''/x/dmm_full_multithreads.sh -m a'') = ''/x/dmm_full_multithreads.sh -m a''"
  using job_args_prefix[of sample_protocol "'' -m a''"]
        job_args_prefix[of sample_protocol "''/x/dmm_full_multithreads.sh -m a''"]
  by (simp add: startswith_def sample_protocol_def)

section \<open>Properties of convertInputStep\<close>

lemma run_calls_result: "run_calls lib made cs = Inr r \<Longrightarrow> r = made @ cs"
proof (induction cs arbitrary: made)
  case Nil
  then show ?case by simp
next
  case (Cons c cs)
  from Cons.prems have "run_calls lib (made @ [c]) cs = Inr r"
    by (simp split: option.splits)
  then have "r = (made @ [c]) @ cs" by (rule Cons.IH)
  then show ?case by simp
qed

lemmas path_defs = abspath_def normpath_def isabs_def startswith_def endswith_def join2_def
  join_def norm_comps_def norm_step_def basename_def splitext_def resolve_def

lemma sample_volume:
  "getInputVolume sample_protocol =
     Inr \<lparr>vol_fileName = ''Runs/000001_Import/extra/vol1.mrc'',
          vol_samplingRate = 2, vol_originShifts = (0, 0, 0)\<rparr>"
  by (simp add: sample_protocol_def getInputVolume_def)

lemma sample_local_volume:
  "getLocalVolumeFile sample_protocol = Inr ''Runs/000002_ProtDMM/extra/vol1_2.mrc''"
  by (simp add: getLocalVolumeFile_def getVolumeFile_def sample_volume)
     (simp add: sample_protocol_def path_defs getExtraPath_def getPath_def
        str_int_def digits.simps Let_def)

lemma sample_tmp:
  "getTmpPath sample_protocol [''inpVolume.mrc''] = ''Runs/000002_ProtDMM/tmp/inpVolume.mrc''"
  by (simp add: sample_protocol_def getTmpPath_def getPath_def path_defs)

lemma sample_convert:
  "convertInputStep sample_protocol all_fine =
     Inr [Convert ''Runs/000001_Import/extra/vol1.mrc'' ''Runs/000002_ProtDMM/tmp/inpVolume.mrc'',
          FixFile ''Runs/000002_ProtDMM/tmp/inpVolume.mrc'' ''Runs/000002_ProtDMM/tmp/inpVolume.mrc''
            (0, 0, 0) 2 START,
          FixFile ''Runs/000002_ProtDMM/tmp/inpVolume.mrc'' ''Runs/000002_ProtDMM/extra/vol1_2.mrc''
            (0, 0, 0) 2 ORIGIN]"
  by (simp add: convertInputStep_def sample_volume sample_local_volume sample_tmp all_fine_def Let_def)

text \<open>
  Claim C6. A run of \<open>convertInputStep\<close> that returns has made three calls: the conversion,
  then the header fix in mode \<open>START\<close>, then the header fix in mode \<open>ORIGIN\<close>. These two are
  its only header fixes, in that order, and both get the origin shifts and the sampling rate
  of the input volume.
\<close>

theorem convertInputStep_two_fixes:
  assumes "convertInputStep self lib = Inr calls"
  shows "\<exists>inVol localVol mrcFile.
           getInputVolume self = Inr inVol \<and> getLocalVolumeFile self = Inr localVol
         \<and> mrcFile = getTmpPath self [''inpVolume.mrc'']
         \<and> calls = [Convert (vol_fileName inVol) mrcFile,
                     FixFile mrcFile mrcFile (vol_originShifts inVol) (vol_samplingRate inVol) START,
                     FixFile mrcFile localVol (vol_originShifts inVol) (vol_samplingRate inVol) ORIGIN]
         \<and> filter is_fix calls =
                    [FixFile mrcFile mrcFile (vol_originShifts inVol) (vol_samplingRate inVol) START,
                     FixFile mrcFile localVol (vol_originShifts inVol) (vol_samplingRate inVol) ORIGIN]"
proof -
  define mrcFile where "mrcFile = getTmpPath self [''inpVolume.mrc'']"
  from assms obtain inVol where v: "getInputVolume self = Inr inVol"
    by (auto simp: convertInputStep_def split: sum.splits)
  define c1 where "c1 = [Convert (vol_fileName inVol) mrcFile,
      FixFile mrcFile mrcFile (vol_originShifts inVol) (vol_samplingRate inVol) START]"
  from assms v obtain made where m: "run_calls lib [] c1 = Inr made"
    unfolding convertInputStep_def Let_def c1_def mrcFile_def
    by (auto split: sum.splits)
  then have made: "made = c1" by (auto dest: run_calls_result)
  from assms v m obtain localVol where l: "getLocalVolumeFile self = Inr localVol"
    unfolding convertInputStep_def Let_def c1_def mrcFile_def
    by (auto split: sum.splits)
  from assms v m l
  have "run_calls lib made
          [FixFile mrcFile localVol (vol_originShifts inVol) (vol_samplingRate inVol) ORIGIN] = Inr calls"
    unfolding convertInputStep_def Let_def c1_def mrcFile_def by simp
  then have "calls = made @ [FixFile mrcFile localVol (vol_originShifts inVol) (vol_samplingRate inVol) ORIGIN]"
    by (rule run_calls_result)
  with made v l show ?thesis
    unfolding c1_def mrcFile_def by simp
qed

theorem convertInputStep_two_fixes_witness:
  "convertInputStep sample_protocol all_fine =
     Inr [Convert ''Runs/000001_Import/extra/vol1.mrc'' ''Runs/000002_ProtDMM/tmp/inpVolume.mrc'',
          FixFile ''Runs/000002_ProtDMM/tmp/inpVolume.mrc'' ''Runs/000002_ProtDMM/tmp/inpVolume.mrc''
            (0, 0, 0) 2 START,
          FixFile ''Runs/000002_ProtDMM/tmp/inpVolume.mrc'' ''Runs/000002_ProtDMM/extra/vol1_2.mrc''
            (0, 0, 0) 2 ORIGIN]
   \<and> filter is_fix
        [Convert ''Runs/000001_Import/extra/vol1.mrc'' ''Runs/000002_ProtDMM/tmp/inpVolume.mrc'',
          FixFile ''Runs/000002_ProtDMM/tmp/inpVolume.mrc'' ''Runs/000002_ProtDMM/tmp/inpVolume.mrc''
            (0, 0, 0) 2 START,
          FixFile ''Runs/000002_ProtDMM/tmp/inpVolume.mrc'' ''Runs/000002_ProtDMM/extra/vol1_2.mrc''
            (0, 0, 0) 2 ORIGIN] =
        [FixFile ''Runs/000002_ProtDMM/tmp/inpVolume.mrc'' ''Runs/000002_ProtDMM/tmp/inpVolume.mrc''
            (0, 0, 0) 2 START,
          FixFile ''Runs/000002_ProtDMM/tmp/inpVolume.mrc'' ''Runs/000002_ProtDMM/extra/vol1_2.mrc''
            (0, 0, 0) 2 ORIGIN]"
  using convertInputStep_two_fixes[OF sample_convert]
  by (simp add: sample_convert)

section \<open>Properties of getDMMArgs\<close>

lemma sample_local_sequence:
  "\<exists>t'. getLocalSequenceFile sample_protocol sample_fs = Inr (''Runs/000002_ProtDMM/extra/seq_2.fasta'', t')"
  by (simp add: getLocalSequenceFile_def getSequenceFile_def Let_def)
     (simp add: sample_protocol_def sample_fs_def path_defs getExtraPath_def getPath_def
        str_int_def digits.simps copyfile_def is_file_def)

lemma sample_args:
  "map_sum id fst (getDMMArgs sample_protocol sample_fs) =
     Inr '' -m /home/u/proj/Runs/000002_ProtDMM/extra/vol1_2.mrc -f /home/u/proj/Runs/000002_ProtDMM/extra/seq_2.fasta -A  -c 0.0 -o /home/u/proj/Runs/000002_ProtDMM/tmp/predictions -t 10 -T 10''"
proof -
  from sample_local_sequence obtain t' where
    "getLocalSequenceFile sample_protocol sample_fs = Inr (''Runs/000002_ProtDMM/extra/seq_2.fasta'', t')" ..
  then show ?thesis
    by (simp add: getDMMArgs_def sample_local_volume Let_def)
       (simp add: sample_protocol_def alphafold_pdb_path_def output_path_def getTmpPath_def getPath_def path_defs)
qed

text \<open>
  Claim C9, as stated, fails: the string that \<open>getDMMArgs\<close> builds begins with a space, so
  it is not the string \<^verbatim>\<open>-m <map_path> ... -T 10\<close>.
\<close>

theorem getDMMArgs_leading_space_counterexample:
  "map_sum id fst (getDMMArgs sample_protocol sample_fs) =
     Inr '' -m /home/u/proj/Runs/000002_ProtDMM/extra/vol1_2.mrc -f /home/u/proj/Runs/000002_ProtDMM/extra/seq_2.fasta -A  -c 0.0 -o /home/u/proj/Runs/000002_ProtDMM/tmp/predictions -t 10 -T 10''
   \<and> map_sum id fst (getDMMArgs sample_protocol sample_fs) \<noteq>
     Inr ''-m /home/u/proj/Runs/000002_ProtDMM/extra/vol1_2.mrc -f /home/u/proj/Runs/000002_ProtDMM/extra/seq_2.fasta -A  -c 0.0 -o /home/u/proj/Runs/000002_ProtDMM/tmp/predictions -t 10 -T 10''"
  by (simp add: sample_args)

text \<open>
  Claim C9, amended. The string that \<open>getDMMArgs\<close> returns is one space followed by
  \<^verbatim>\<open>-m <map_path> -f <sequence_path> -A <aux_model_path> -c <contour> -o <output_dir> -t 10 -T 10\<close>,
  where the paths are the absolute names of the local volume file, of the local sequence
  file and of \<^verbatim>\<open>tmp/predictions\<close>, and the value after \<^verbatim>\<open>-A\<close> is empty when no auxiliary
  model is selected. The working directory of the job is the predictor's directory.
\<close>

theorem getDMMArgs_form:
  assumes "getDMMArgs self t = Inr (args, t')"
  shows "\<exists>lv ls. getLocalVolumeFile self = Inr lv \<and> getLocalSequenceFile self t = Inr (ls, t')
         \<and> args = '' '' @ ''-m '' @ abspath (getcwd self) lv
                  @ '' -f '' @ abspath (getcwd self) ls
                  @ '' -A '' @ (case af2Structure self of None \<Rightarrow> [] | Some f \<Rightarrow> abspath (getcwd self) f)
                  @ '' -c '' @ contourLevel self
                  @ '' -o '' @ abspath (getcwd self) (getTmpPath self [''predictions''])
                  @ '' -t 10 -T 10''
         \<and> job_cwd (DMM_job self args) = DMMBinary self"
  using assms
  by (auto simp: getDMMArgs_def Let_def alphafold_pdb_path_def output_path_def DMM_job_def
      split: sum.splits option.splits)

theorem getDMMArgs_form_witness:
  "\<exists>t'. getDMMArgs sample_protocol sample_fs =
     Inr ('' -m /home/u/proj/Runs/000002_ProtDMM/extra/vol1_2.mrc -f /home/u/proj/Runs/000002_ProtDMM/extra/seq_2.fasta -A  -c 0.0 -o /home/u/proj/Runs/000002_ProtDMM/tmp/predictions -t 10 -T 10'', t')
     \<and> job_cwd (DMM_job sample_protocol '' -m /home/u/proj/Runs/000002_ProtDMM/extra/vol1_2.mrc -f /home/u/proj/Runs/000002_ProtDMM/extra/seq_2.fasta -A  -c 0.0 -o /home/u/proj/Runs/000002_ProtDMM/tmp/predictions -t 10 -T 10'') = ''/opt/DMM''"
proof -
  let ?a = "'' -m /home/u/proj/Runs/000002_ProtDMM/extra/vol1_2.mrc -f /home/u/proj/Runs/000002_ProtDMM/extra/seq_2.fasta -A  -c 0.0 -o /home/u/proj/Runs/000002_ProtDMM/tmp/predictions -t 10 -T 10''"
  obtain r where r: "getDMMArgs sample_protocol sample_fs = r" by simp
  with sample_args obtain t' where g: "getDMMArgs sample_protocol sample_fs = Inr (?a, t')"
    by (cases r) auto
  from getDMMArgs_form[OF g] have "job_cwd (DMM_job sample_protocol ?a) = DMMBinary sample_protocol"
    by blast
  with g show ?thesis by (auto simp: sample_protocol_def)
qed

section \<open>Properties of chimeraResample\<close>

lemma poll_returns:
  "poll ex n = Some m \<Longrightarrow> n \<le> m \<and> ex m \<and> (\<forall>k. n \<le> k \<and> k < m \<longrightarrow> \<not> ex k)"
proof (induction rule: poll.raw_induct[rotated 1, consumes 1])
  case (1 poll' ex n m)
  show ?case
  proof (cases "ex n")
    case True
    with 1(2) show ?thesis by auto
  next
    case False
    with 1(2) have "poll' ex (Suc n) = Some m" by simp
    from 1(1)[OF this] have "Suc n \<le> m" "ex m" "\<forall>k. Suc n \<le> k \<and> k < m \<longrightarrow> \<not> ex k" by auto
    with False show ?thesis
      by (metis Suc_leD Suc_leI le_neq_implies_less)
  qed
qed

lemma poll_finds: "ex (n + d) \<Longrightarrow> \<exists>m. poll ex n = Some m"
proof (induction d arbitrary: n)
  case 0
  then show ?case by (subst poll.simps) simp
next
  case (Suc d)
  then have "\<exists>m. poll ex (Suc n) = Some m" by simp
  then show ?case by (subst poll.simps) simp
qed

lemma poll_None_iff: "poll ex 0 = None \<longleftrightarrow> (\<forall>n. \<not> ex n)"
proof
  assume "poll ex 0 = None"
  show "\<forall>n. \<not> ex n"
  proof (rule allI, rule notI)
    fix n assume "ex n"
    then have "ex (0 + n)" by simp
    then have "\<exists>m. poll ex 0 = Some m" by (rule poll_finds)
    with \<open>poll ex 0 = None\<close> show False by simp
  qed
next
  assume "\<forall>n. \<not> ex n"
  then show "poll ex 0 = None"
    using poll_returns[of ex 0] by (cases "poll ex 0") auto
qed

text \<open>
  Claim C10, as stated, fails: without the \<^verbatim>\<open>chimera\<close> package the import raises inside
  \<^verbatim>\<open>weakImport\<close>, the loop is never reached, and the method returns the name of an output
  file that does not exist and never appears.
\<close>

theorem chimeraResample_import_counterexample:
  "chimeraResample chimera_missing ''out.mrc'' = Some (Inr (''out.mrc'', []))
   \<and> \<not> exists_at chimera_missing 0 \<and> \<not> exists_at chimera_missing 1"
  by (simp add: chimeraResample_def chimera_missing_def never_def)

text \<open>
  Claim C10, amended. When the import works and neither the script nor the program raises,
  the method returns the output name only after \<^verbatim>\<open>os.path.exists\<close> has answered yes, with a
  call of \<^verbatim>\<open>time.sleep(1)\<close> after each answer no; the loop has no bound, so the method
  returns exactly when the file is seen at some poll and runs for ever when it never is.
  When the import of \<^verbatim>\<open>chimera\<close> fails, the method returns the output name at once, without a
  poll.
\<close>

theorem chimeraResample_polls:
  "(import_works w \<and> script_error w = None \<and> program_error w = None \<longrightarrow>
      (chimeraResample w outFile = None \<longleftrightarrow> (\<forall>n. \<not> exists_at w n))
    \<and> (\<forall>r. chimeraResample w outFile = Some r \<longrightarrow>
          (\<exists>n. exists_at w n \<and> (\<forall>k<n. \<not> exists_at w k) \<and> r = Inr (outFile, replicate n 1))))
   \<and> (\<not> import_works w \<longrightarrow> chimeraResample w outFile = Some (Inr (outFile, [])))"
proof (intro conjI impI allI)
  assume a: "import_works w \<and> script_error w = None \<and> program_error w = None"
  then show "chimeraResample w outFile = None \<longleftrightarrow> (\<forall>n. \<not> exists_at w n)"
    using poll_None_iff[of "exists_at w"]
    by (auto simp: chimeraResample_def split: option.splits)
next
  fix r
  assume a: "import_works w \<and> script_error w = None \<and> program_error w = None"
    and r: "chimeraResample w outFile = Some r"
  then obtain n where n: "poll (exists_at w) 0 = Some n" and "r = Inr (outFile, replicate n 1)"
    by (auto simp: chimeraResample_def split: option.splits)
  with poll_returns[OF n]
  show "\<exists>n. exists_at w n \<and> (\<forall>k<n. \<not> exists_at w k) \<and> r = Inr (outFile, replicate n 1)"
    by auto
next
  assume "\<not> import_works w"
  then show "chimeraResample w outFile = Some (Inr (outFile, []))"
    by (simp add: chimeraResample_def)
qed

theorem chimeraResample_polls_witness:
  "import_works chimera_slow \<and> script_error chimera_slow = None \<and> program_error chimera_slow = None
   \<and> chimeraResample chimera_slow ''out.mrc'' = Some (Inr (''out.mrc'', [1, 1]))
   \<and> exists_at chimera_slow 2 \<and> \<not> exists_at chimera_slow 0 \<and> \<not> exists_at chimera_slow 1
   \<and> \<not> import_works chimera_missing
   \<and> chimeraResample chimera_missing ''out.mrc'' = Some (Inr (''out.mrc'', []))"
proof -
  have p: "poll third_time 0 = Some 2"
    by (simp add: poll.simps third_time_def)
  have c: "chimeraResample chimera_slow ''out.mrc'' = Some (Inr (''out.mrc'', [1, 1]))"
    by (simp add: chimeraResample_def chimera_slow_def p numeral_2_eq_2)
  have w: "import_works chimera_slow \<and> script_error chimera_slow = None \<and> program_error chimera_slow = None"
    by (simp add: chimera_slow_def)
  from chimeraResample_polls[of chimera_slow "''out.mrc''"] w c
  have "\<exists>n. exists_at chimera_slow n \<and> (\<forall>k<n. \<not> exists_at chimera_slow k)
          \<and> Inr (''out.mrc'', [1, 1]) = (Inr (''out.mrc'', replicate n 1) :: py_error + string \<times> nat list)"
    by blast
  moreover from chimeraResample_polls[of chimera_missing "''out.mrc''"]
  have "chimeraResample chimera_missing ''out.mrc'' = Some (Inr (''out.mrc'', []))"
    by (simp add: chimera_missing_def)
  ultimately show ?thesis using w c
    by (simp add: chimera_slow_def chimera_missing_def third_time_def)
qed

section \<open>Properties of DMMStep\<close>

lemma split_sep_nonempty: "split_sep s \<noteq> []"
  by (induction s) (auto split: list.splits)

lemma split_sep_append:
  "split_sep (a @ CHR ''/'' # b) = split_sep a @ split_sep b"
  by (induction a) (auto split: list.splits simp: split_sep_nonempty)

lemma split_sep_nosep: "CHR ''/'' \<notin> set s \<Longrightarrow> split_sep s = [s]"
  by (induction s) auto

lemma split_sep_no_slash: "c \<in> set (split_sep s) \<Longrightarrow> CHR ''/'' \<notin> set c"
  by (induction s arbitrary: c) (auto split: list.splits if_splits)

lemma norm_comps_append:
  "norm_comps f (xs @ ys) = foldl (norm_step f) (norm_comps f xs) ys"
  by (simp add: norm_comps_def)

lemma norm_step_plain: "plain c \<Longrightarrow> norm_step f st c = st @ [c]"
  by (simp add: norm_step_def plain_def)

lemma foldl_norm_step_plain:
  "\<forall>c \<in> set cs. plain c \<Longrightarrow> foldl (norm_step f) st cs = st @ cs"
  by (induction cs arbitrary: st) (simp_all add: norm_step_plain)

lemma norm_step_empty: "norm_step f st [] = st"
  by (simp add: norm_step_def)

lemma startswith_sep: "startswith s ''/'' \<longleftrightarrow> (\<exists>r. s = CHR ''/'' # r)"
  by (cases s) (auto simp: startswith_def)

lemma endswith_sep: "endswith s ''/'' \<longleftrightarrow> (\<exists>r. s = r @ ''/'')"
proof
  assume "endswith s ''/''"
  then have "drop (length s - 1) s = ''/''" "1 \<le> length s" by (auto simp: endswith_def)
  then have "s = take (length s - 1) s @ ''/''" by (metis append_take_drop_id)
  then show "\<exists>r. s = r @ ''/''" ..
next
  assume "\<exists>r. s = r @ ''/''"
  then show "endswith s ''/''" by (auto simp: endswith_def)
qed

text \<open>The components of a joined name: those of the first part, then those of the second.\<close>

lemma norm_comps_join2:
  assumes "\<not> startswith b ''/''"
  shows "norm_comps f (split_sep (join2 a b)) =
           foldl (norm_step f) (norm_comps f (split_sep a)) (split_sep b)"
proof (cases "a = []")
  case True
  with assms show ?thesis by (simp add: join2_def norm_comps_def norm_step_empty)
next
  case False
  show ?thesis
  proof (cases "endswith a ''/''")
    case True
    then obtain r where r: "a = r @ ''/''" using endswith_sep by blast
    have "split_sep a = split_sep r @ [[]]" using split_sep_append[of r "[]"] r by simp
    moreover have "join2 a b = r @ CHR ''/'' # b" using assms True r by (simp add: join2_def)
    ultimately show ?thesis
      by (simp add: split_sep_append norm_comps_append norm_step_empty)
  next
    case False
    with assms \<open>a \<noteq> []\<close> have "join2 a b = a @ CHR ''/'' # b" by (simp add: join2_def)
    then show ?thesis by (simp add: split_sep_append norm_comps_append)
  qed
qed

lemma endswith_last: "endswith s ''/'' \<longleftrightarrow> (s \<noteq> [] \<and> last s = CHR ''/'')"
  by (cases s rule: rev_cases) (auto simp: endswith_def)

lemma startswith_hd: "startswith s ''/'' \<longleftrightarrow> (s \<noteq> [] \<and> hd s = CHR ''/'')"
  by (cases s) (auto simp: startswith_def)

lemma isabs_join2:
  "\<not> startswith b ''/'' \<Longrightarrow> isabs (join2 a b) = (if a = [] then isabs b else isabs a)"
  by (cases a) (auto simp: join2_def isabs_def startswith_def)

lemma join2_assoc:
  assumes "\<not> startswith a ''/''" "\<not> startswith b ''/''" "a \<noteq> []"
  shows "join2 c (join2 a b) = join2 (join2 c a) b"
proof -
  have ja: "join2 c a = (if c = [] \<or> endswith c ''/'' then c @ a else c @ ''/'' @ a)"
    using assms(1) by (simp add: join2_def)
  have e: "endswith (join2 c a) ''/'' = endswith a ''/''"
    using assms(3) by (simp add: ja endswith_last)
  have ne: "join2 c a \<noteq> []" using assms(3) by (simp add: ja)
  have jab: "join2 a b = (if endswith a ''/'' then a @ b else a @ ''/'' @ b)"
    using assms(2,3) by (simp add: join2_def)
  have n: "\<not> startswith (join2 a b) ''/''"
    using assms(1,3) by (simp add: jab startswith_hd)
  have l: "join2 c (join2 a b) =
        (if c = [] \<or> endswith c ''/'' then c @ join2 a b else c @ ''/'' @ join2 a b)"
    using n by (simp add: join2_def)
  have r: "join2 (join2 c a) b =
        (if endswith a ''/'' then join2 c a @ b else join2 c a @ ''/'' @ b)"
    using assms(2) ne e by (simp add: join2_def)
  show ?thesis unfolding l r by (simp add: ja jab)
qed

lemma resolve_join2:
  assumes "\<not> startswith b ''/''" "\<forall>c \<in> set (split_sep b). plain c"
  shows "resolve cwd (join2 a b) = resolve cwd a @ split_sep b"
proof (cases "isabs a")
  case True
  then have "a \<noteq> []" by (auto simp: isabs_def startswith_def)
  with True assms(1) have "isabs (join2 a b)" by (simp add: isabs_join2)
  with True show ?thesis
    by (simp add: resolve_def Let_def norm_comps_join2[OF assms(1)] foldl_norm_step_plain[OF assms(2)])
next
  case na: False
  have nb: "\<not> isabs b" using assms(1) by (simp add: isabs_def)
  show ?thesis
  proof (cases "a = []")
    case True
    have e: "\<not> startswith [] ''/''" by (simp add: startswith_def)
    have "isabs (join2 cwd b) = (if cwd = [] then isabs b else isabs cwd)"
      using assms(1) by (rule isabs_join2)
    moreover have "isabs (join2 cwd []) = (if cwd = [] then isabs [] else isabs cwd)"
      using e by (rule isabs_join2)
    ultimately have f: "isabs (join2 cwd b) = isabs (join2 cwd [])"
      using nb by (simp add: isabs_def startswith_def)
    have l: "resolve cwd (join2 a b) = norm_comps (isabs (join2 cwd [])) (split_sep cwd) @ split_sep b"
      using True nb e
      by (simp add: resolve_def Let_def join2_def[of "[]"] f
            norm_comps_join2[OF assms(1)] foldl_norm_step_plain[OF assms(2)])
    have r: "resolve cwd a = norm_comps (isabs (join2 cwd [])) (split_sep cwd)"
      using True e
      by (simp add: resolve_def Let_def isabs_def norm_comps_join2[OF e] norm_step_empty)
    show ?thesis by (simp add: l r)
  next
    case False
    have nab: "\<not> isabs (join2 a b)" using na False assms(1) by (simp add: isabs_join2)
    have nsa: "\<not> startswith a ''/''" using na by (simp add: isabs_def)
    have j: "join2 cwd (join2 a b) = join2 (join2 cwd a) b"
      using nsa assms(1) False by (rule join2_assoc)
    have "join2 cwd a \<noteq> []" using False nsa by (auto simp: join2_def)
    then have f: "isabs (join2 (join2 cwd a) b) = isabs (join2 cwd a)"
      using assms(1) by (simp add: isabs_join2)
    show ?thesis using na nab
      by (simp add: resolve_def Let_def j f norm_comps_join2[OF assms(1)] foldl_norm_step_plain[OF assms(2)])
  qed
qed









lemma run_predictor_DMMDir:
  assumes "run_predictor self exec t = Inr t1"
  shows "\<exists>d. DMMDir self = Inr d"
proof -
  from assms obtain lv where "getLocalVolumeFile self = Inr lv"
    by (auto simp: run_predictor_def getDMMArgs_def split: sum.splits)
  then show ?thesis by (simp add: DMMDir_def getVolumeName_def)
qed




lemma sample_local_sequence_fs:
  "getLocalSequenceFile sample_protocol sample_fs = Inr (''Runs/000002_ProtDMM/extra/seq_2.fasta'', sample_fs0)"
  by (simp add: getLocalSequenceFile_def getSequenceFile_def Let_def)
     (simp add: sample_protocol_def sample_fs_def sample_fs0_def path_defs getExtraPath_def getPath_def
        str_int_def digits.simps copyfile_def is_file_def)

lemma sample_getDMMArgs:
  "getDMMArgs sample_protocol sample_fs = Inr (sample_args_text, sample_fs0)"
  by (simp add: getDMMArgs_def sample_local_volume sample_local_sequence_fs Let_def sample_args_text_def)
     (simp add: sample_protocol_def alphafold_pdb_path_def output_path_def getTmpPath_def getPath_def path_defs)

lemma sample_DMMDir: "DMMDir sample_protocol = Inr ''/opt/DMM/Predict_Result/vol1_2''"
  by (simp add: DMMDir_def getVolumeName_def sample_local_volume)
     (simp add: sample_protocol_def path_defs)

lemma sample_paths:
  "resolve (getcwd sample_protocol) ''/opt/DMM/Predict_Result/vol1_2'' = [''opt'', ''DMM'', ''Predict_Result'', ''vol1_2'']"
  "resolve (getcwd sample_protocol) (DMMBinary sample_protocol) = [''opt'', ''DMM'']"
  "resolve (getcwd sample_protocol) (outDir sample_protocol) =
     [''home'', ''u'', ''proj'', ''Runs'', ''000002_ProtDMM'', ''extra'', ''predictions'']"
  by (simp_all add: sample_protocol_def outDir_def getExtraPath_def getPath_def path_defs)

text \<open>
  Claim C7. When the predictor's run has returned (the subprocess ended with status 0) and
  the directory \<^verbatim>\<open><binary>/Predict_Result/<volume name>\<close> is not there, \<open>DMMStep\<close> raises
  \<^verbatim>\<open>FileNotFoundError\<close> (from \<^verbatim>\<open>shutil.copytree\<close>): the absence is not passed over. A subprocess
  that ends with another status makes the step raise the job error with that status, which
  is a different exception.
\<close>

theorem DMMStep_missing_output:
  "(run_predictor self exec t = Inr t1 \<longrightarrow>
      (\<exists>d. DMMDir self = Inr d \<and>
           (t1 (resolve (getcwd self) d) = None \<longrightarrow> DMMStep self exec t = Inl FileNotFoundError)))
   \<and> (getDMMArgs self t = Inr (args, t0) \<and> fst (exec (DMM_job self args) t0) \<noteq> 0 \<longrightarrow>
        DMMStep self exec t = Inl (JobError (fst (exec (DMM_job self args) t0))))
   \<and> (\<forall>status. FileNotFoundError \<noteq> JobError status)"
proof (intro conjI impI)
  assume r: "run_predictor self exec t = Inr t1"
  then obtain d where d: "DMMDir self = Inr d" using run_predictor_DMMDir by blast
  have "t1 (resolve (getcwd self) d) = None \<longrightarrow> DMMStep self exec t = Inl FileNotFoundError"
    using r d by (simp add: DMMStep_def relocate_def copytree_def)
  with d have "DMMDir self = Inr d \<and>
           (t1 (resolve (getcwd self) d) = None \<longrightarrow> DMMStep self exec t = Inl FileNotFoundError)"
    by simp
  then show "\<exists>d. DMMDir self = Inr d \<and>
           (t1 (resolve (getcwd self) d) = None \<longrightarrow> DMMStep self exec t = Inl FileNotFoundError)"
    by (rule exI)
next
  assume a: "getDMMArgs self t = Inr (args, t0) \<and> fst (exec (DMM_job self args) t0) \<noteq> 0"
  obtain status t1' where e: "exec (DMM_job self args) t0 = (status, t1')"
    by (cases "exec (DMM_job self args) t0")
  with a show "DMMStep self exec t = Inl (JobError (fst (exec (DMM_job self args) t0)))"
    by (simp add: DMMStep_def run_predictor_def runJob_def)
next
  show "\<forall>status. FileNotFoundError \<noteq> JobError status" by simp
qed

theorem DMMStep_missing_output_witness:
  "run_predictor sample_protocol idle_process sample_fs = Inr sample_fs0
   \<and> DMMDir sample_protocol = Inr ''/opt/DMM/Predict_Result/vol1_2''
   \<and> sample_fs0 (resolve (getcwd sample_protocol) ''/opt/DMM/Predict_Result/vol1_2'') = None
   \<and> DMMStep sample_protocol idle_process sample_fs = Inl FileNotFoundError
   \<and> getDMMArgs sample_protocol sample_fs = Inr (sample_args_text, sample_fs0)
   \<and> fst (failing_process (DMM_job sample_protocol sample_args_text) sample_fs0) = 1
   \<and> DMMStep sample_protocol failing_process sample_fs = Inl (JobError 1)"
proof -
  have r: "run_predictor sample_protocol idle_process sample_fs = Inr sample_fs0"
    by (simp add: run_predictor_def sample_getDMMArgs runJob_def idle_process_def)
  have n: "sample_fs0 (resolve (getcwd sample_protocol) ''/opt/DMM/Predict_Result/vol1_2'') = None"
    by (simp add: sample_paths sample_fs0_def sample_fs_def)
  have f: "fst (failing_process (DMM_job sample_protocol sample_args_text) sample_fs0) = 1"
    by (simp add: failing_process_def)
  note th = DMMStep_missing_output[where self = sample_protocol and exec = idle_process
      and t = sample_fs and ?t1.0 = sample_fs0]
  note th2 = DMMStep_missing_output[where self = sample_protocol and exec = failing_process
      and t = sample_fs and args = sample_args_text and ?t0.0 = sample_fs0]
  from th r n sample_DMMDir have "DMMStep sample_protocol idle_process sample_fs = Inl FileNotFoundError"
    by auto
  moreover from th2 sample_getDMMArgs f
  have "DMMStep sample_protocol failing_process sample_fs = Inl (JobError 1)"
    by auto
  ultimately show ?thesis using r n f sample_DMMDir sample_getDMMArgs by simp
qed





section \<open>Properties of createOutputStep\<close>







lemma sample_outDMMFile:
  "outDMMFile sample_protocol = ''/home/u/proj/Runs/000002_ProtDMM/tmp/predictions/DMM_score_w9.pdb''"
  by (simp add: outDMMFile_def sample_protocol_def getTmpPath_def getPath_def path_defs)

lemma sample_score_path:
  "resolve (getcwd sample_protocol) ''/home/u/proj/Runs/000002_ProtDMM/tmp/predictions/DMM_score_w9.pdb'' =
     [''home'', ''u'', ''proj'', ''Runs'', ''000002_ProtDMM'', ''tmp'', ''predictions'', ''DMM_score_w9.pdb'']"
  by (simp add: sample_protocol_def path_defs)

lemma sample_scores:
  "parseDMMScores (getcwd sample_protocol) sample_fs_scores (outDMMFile sample_protocol) =
     Inr [''A:10'' \<mapsto> ''0.50'', ''A:11'' \<mapsto> ''0.30'']"
  by (simp add: parseDMMScores_def sample_outDMMFile sample_score_path read_lines_def
        sample_fs_scores_def sample_lines)





section \<open>Properties of the paths of createOutputStep\<close>

lemma norm_comps_Nil_Cons: "norm_comps f ([] # xs) = norm_comps f xs"
  by (simp add: norm_comps_def norm_step_empty)

lemma norm_step_keeps_plain:
  assumes "\<forall>c \<in> set st. plain c" "CHR ''/'' \<notin> set x"
  shows "\<forall>c \<in> set (norm_step True st x). plain c"
proof (cases "x = [] \<or> x = ''.''")
  case True
  with assms show ?thesis by (auto simp: norm_step_def)
next
  case False
  show ?thesis
  proof (cases "x = ''..''")
    case True
    have "st \<noteq> [] \<Longrightarrow> last st \<noteq> ''..''"
      using assms(1) last_in_set[of st] by (auto simp: plain_def)
    then have "norm_step True st x = butlast st"
      using True by (auto simp: norm_step_def)
    with assms(1) show ?thesis by (auto dest: in_set_butlastD)
  next
    case nd: False
    with False have "norm_step True st x = st @ [x]" by (simp add: norm_step_def)
    moreover have "plain x" using False nd assms(2) by (simp add: plain_def)
    ultimately show ?thesis using assms(1) by auto
  qed
qed

lemma foldl_norm_step_keeps_plain:
  "\<forall>c \<in> set st. plain c \<Longrightarrow> \<forall>x \<in> set xs. CHR ''/'' \<notin> set x \<Longrightarrow>
   \<forall>c \<in> set (foldl (norm_step True) st xs). plain c"
proof (induction xs arbitrary: st)
  case Nil
  then show ?case by simp
next
  case (Cons x xs)
  from Cons.prems have "\<forall>c \<in> set (norm_step True st x). plain c"
    by (intro norm_step_keeps_plain) auto
  moreover from Cons.prems have "\<forall>x \<in> set xs. CHR ''/'' \<notin> set x" by simp
  ultimately have "\<forall>c \<in> set (foldl (norm_step True) (norm_step True st x) xs). plain c"
    by (rule Cons.IH)
  then show ?case by simp
qed

lemma norm_comps_abs_plain: "\<forall>c \<in> set (norm_comps True (split_sep q)). plain c"
  unfolding norm_comps_def
  by (rule foldl_norm_step_keeps_plain) (auto dest: split_sep_no_slash)

lemma split_sep_sep_join:
  "cs \<noteq> [] \<Longrightarrow> \<forall>c \<in> set cs. CHR ''/'' \<notin> set c \<Longrightarrow> split_sep (sep_join cs) = cs"
proof (induction cs rule: sep_join.induct)
  case 1
  then show ?case by simp
next
  case (2 c)
  then show ?case by (simp add: split_sep_nosep)
next
  case (3 c d cs)
  then have "split_sep (sep_join (d # cs)) = d # cs" by simp
  moreover have "split_sep c = [c]" using 3(3) by (simp add: split_sep_nosep)
  ultimately show ?case using split_sep_append[of c "sep_join (d # cs)"] by simp
qed

lemma norm_comps_sep_join:
  assumes "\<forall>c \<in> set cs. plain c"
  shows "norm_comps True (split_sep (sep_join cs)) = cs"
proof (cases "cs = []")
  case True
  then show ?thesis by (simp add: norm_comps_def norm_step_empty)
next
  case False
  with assms have "split_sep (sep_join cs) = cs"
    by (intro split_sep_sep_join) (auto simp: plain_def)
  then show ?thesis
    using foldl_norm_step_plain[OF assms, of True "[]"] by (simp add: norm_comps_def)
qed

lemma normpath_abs:
  assumes "isabs q"
  shows "normpath q = ''/'' @ sep_join (norm_comps True (split_sep q))
       \<or> normpath q = ''//'' @ sep_join (norm_comps True (split_sep q))"
proof -
  from assms have s: "startswith q ''/''" and n: "q \<noteq> []"
    by (auto simp: isabs_def startswith_def)
  show ?thesis
    by (simp add: normpath_def Let_def s n numeral_2_eq_2)
qed

text \<open>With an absolute working directory, \<open>abspath\<close> names the same entry as its argument.\<close>

lemma resolve_abspath:
  assumes "isabs cwd"
  shows "resolve cwd (abspath cwd x) = resolve cwd x"
proof -
  define q where "q = (if isabs x then x else join2 cwd x)"
  have cn: "cwd \<noteq> []" using assms by (auto simp: isabs_def startswith_def)
  have aq: "isabs q"
  proof (cases "isabs x")
    case True
    then show ?thesis by (simp add: q_def)
  next
    case False
    then have "\<not> startswith x ''/''" by (simp add: isabs_def)
    then have "isabs (join2 cwd x) = isabs cwd" using cn by (simp add: isabs_join2)
    with assms False show ?thesis by (simp add: q_def)
  qed
  then have qn: "q \<noteq> []" by (auto simp: isabs_def startswith_def)
  define cs where "cs = norm_comps True (split_sep q)"
  have "resolve cwd x = norm_comps (isabs q) (split_sep q)"
    by (simp add: resolve_def Let_def q_def)
  then have rx: "resolve cwd x = cs"
    using aq by (simp add: cs_def)
  have pl: "\<forall>c \<in> set cs. plain c" unfolding cs_def by (rule norm_comps_abs_plain)
  have "abspath cwd x = normpath q" by (simp add: abspath_def q_def)
  then have "abspath cwd x = ''/'' @ sep_join cs \<or> abspath cwd x = ''//'' @ sep_join cs"
    using normpath_abs[OF aq] by (simp add: cs_def)
  then show ?thesis
  proof
    assume a: "abspath cwd x = ''/'' @ sep_join cs"
    then have "resolve cwd (abspath cwd x) = norm_comps True (split_sep (''/'' @ sep_join cs))"
      by (simp add: resolve_def Let_def isabs_def startswith_def)
    also have "\<dots> = cs" using norm_comps_sep_join[OF pl] by (simp add: norm_comps_Nil_Cons)
    finally show ?thesis using rx by simp
  next
    assume a: "abspath cwd x = ''//'' @ sep_join cs"
    then have "resolve cwd (abspath cwd x) = norm_comps True (split_sep (''//'' @ sep_join cs))"
      by (simp add: resolve_def Let_def isabs_def startswith_def)
    also have "\<dots> = cs" using norm_comps_sep_join[OF pl] by (simp add: norm_comps_Nil_Cons)
    finally show ?thesis using rx by simp
  qed
qed

lemma resolve_tmp_file:
  "resolve cwd (getTmpPath self [''predictions/DMM_score_w9.pdb'']) =
     resolve cwd (workingDir self) @ [''tmp'', ''predictions'', ''DMM_score_w9.pdb'']"
  using resolve_join2[of "''tmp''" cwd "workingDir self"]
        resolve_join2[of "''predictions/DMM_score_w9.pdb''" cwd "join2 (workingDir self) ''tmp''"]
  by (simp add: getTmpPath_def getPath_def join_def startswith_def plain_def)

lemma resolve_tmp_dir:
  "resolve cwd (getTmpPath self [''predictions'']) =
     resolve cwd (workingDir self) @ [''tmp'', ''predictions'']"
  using resolve_join2[of "''tmp''" cwd "workingDir self"]
        resolve_join2[of "''predictions''" cwd "join2 (workingDir self) ''tmp''"]
  by (simp add: getTmpPath_def getPath_def join_def startswith_def plain_def)

lemma resolve_tmp_cif:
  "resolve cwd (getTmpPath self [''inputStruct.cif'']) =
     resolve cwd (workingDir self) @ [''tmp'', ''inputStruct.cif'']"
  using resolve_join2[of "''tmp''" cwd "workingDir self"]
        resolve_join2[of "''inputStruct.cif''" cwd "join2 (workingDir self) ''tmp''"]
  by (simp add: getTmpPath_def getPath_def join_def startswith_def plain_def)

lemma resolve_outDir:
  "resolve cwd (outDir self) = resolve cwd (workingDir self) @ [''extra'', ''predictions'']"
  using resolve_join2[of "''extra''" cwd "workingDir self"]
        resolve_join2[of "''predictions''" cwd "join2 (workingDir self) ''extra''"]
  by (simp add: outDir_def getExtraPath_def getPath_def join_def startswith_def plain_def)

lemma resolve_out_struct:
  "resolve cwd (getPath self [''outputStructure.cif'']) =
     resolve cwd (workingDir self) @ [''outputStructure.cif'']"
  using resolve_join2[of "''outputStructure.cif''" cwd "workingDir self"]
  by (simp add: getPath_def join_def startswith_def plain_def)

lemma createOutputStep_calls:
  assumes "c \<in> set (fst (createOutputStep self lib t))"
  shows "c = Open (outDMMFile self)
       \<or> c = WriteLowLevel (getPath self [''outputStructure.cif''])
       \<or> (\<exists>a. inputAtomStruct self = Some a
              \<and> (c = ToCIF (as_fileName a) (getTmpPath self [''inputStruct.cif''])
                 \<or> (\<exists>inpAS. toCIF lib (as_fileName a) (getTmpPath self [''inputStruct.cif'']) = Inr inpAS
                        \<and> c = ReadLowLevel inpAS)))"
proof (cases "parseDMMScores (getcwd self) t (outDMMFile self)")
  case (Inl e)
  with assms show ?thesis by (simp add: createOutputStep_def Let_def)
next
  case p: (Inr d)
  show ?thesis
  proof (cases "inputAtomStruct self")
    case None
    with assms p show ?thesis by (simp add: createOutputStep_def Let_def attr_def)
  next
    case a: (Some a)
    show ?thesis
    proof (cases "toCIF lib (as_fileName a) (getTmpPath self [''inputStruct.cif''])")
      case (Inl e)
      with assms p a show ?thesis by (auto simp: createOutputStep_def Let_def attr_def)
    next
      case c: (Inr inpAS)
      show ?thesis
      proof (cases "readLowLevel lib inpAS")
        case (Inl e)
        with assms p a c show ?thesis by (auto simp: createOutputStep_def Let_def attr_def)
      next
        case r: (Inr cifDic)
        from assms p a c r
        have "c \<in> {Open (outDMMFile self), ToCIF (as_fileName a) (getTmpPath self [''inputStruct.cif'']),
                   ReadLowLevel inpAS, WriteLowLevel (getPath self [''outputStructure.cif''])}"
          by (simp add: createOutputStep_def Let_def attr_def split: option.splits)
        with a c show ?thesis by auto
      qed
    qed
  qed
qed

lemma createOutputStep_same_scores:
  assumes "read_lines t' (resolve (getcwd self) (outDMMFile self)) =
           read_lines t (resolve (getcwd self) (outDMMFile self))"
  shows "createOutputStep self lib t' = createOutputStep self lib t"
  using assms by (simp add: createOutputStep_def parseDMMScores_def)

lemma getDMMArgs_text:
  assumes "getDMMArgs self t = Inr (args, t')"
  shows "\<exists>lv ls. getLocalVolumeFile self = Inr lv \<and> getLocalSequenceFile self t = Inr (ls, t')
         \<and> args = '' -m '' @ abspath (getcwd self) lv @ '' -f '' @ abspath (getcwd self) ls
                  @ '' -A '' @ alphafold_pdb_path self @ '' -c '' @ contourLevel self
                  @ '' -o '' @ output_path self @ '' -t 10 -T 10''"
proof (cases "getLocalVolumeFile self")
  case (Inl e)
  with assms show ?thesis by (simp add: getDMMArgs_def)
next
  case lv: (Inr lv)
  show ?thesis
  proof (cases "getLocalSequenceFile self t")
    case (Inl e)
    with assms lv show ?thesis by (simp add: getDMMArgs_def)
  next
    case (Inr r)
    obtain ls t'' where r: "r = (ls, t'')" by (cases r)
    from assms lv Inr r show ?thesis by (simp add: getDMMArgs_def Let_def)
  qed
qed

lemma getDMMArgs_output_path:
  assumes "getDMMArgs self t = Inr (args, t')"
  shows "\<exists>pre. args = pre @ '' -o '' @ output_path self @ '' -t 10 -T 10''"
proof -
  from getDMMArgs_text[OF assms] obtain lv ls where
    a: "args = '' -m '' @ abspath (getcwd self) lv @ '' -f '' @ abspath (getcwd self) ls
                  @ '' -A '' @ alphafold_pdb_path self @ '' -c '' @ contourLevel self
                  @ '' -o '' @ output_path self @ '' -t 10 -T 10''"
    by (elim exE conjE)
  define pre where "pre = '' -m '' @ abspath (getcwd self) lv @ '' -f '' @ abspath (getcwd self) ls
                  @ '' -A '' @ alphafold_pdb_path self @ '' -c '' @ contourLevel self"
  have e: "args = pre @ '' -o '' @ output_path self @ '' -t 10 -T 10''"
    unfolding a pre_def by simp
  show ?thesis by (rule exI[where x = pre]) (rule e)
qed

text \<open>
  Claim C5. With an absolute working directory of the process (as \<^verbatim>\<open>os.getcwd()\<close> gives):
  the score file that \<open>createOutputStep\<close> opens is the entry \<^verbatim>\<open>DMM_score_w9.pdb\<close> of the
  directory \<^verbatim>\<open>tmp/predictions\<close> of the run, whose absolute name is the value that \<open>getDMMArgs\<close>
  puts after \<^verbatim>\<open>-o\<close>; it does not lie in \<^verbatim>\<open>extra/predictions\<close>, where \<open>DMMStep\<close> puts its
  copy, and neither do the other two names the step builds. The file accesses of the step
  are the opening of that score file, the conversion of the input structure, the reading of
  the name the conversion returns and the writing of the output structure; if the input
  structure and the name returned by the conversion do not lie in \<^verbatim>\<open>extra/predictions\<close>,
  no name the step reads lies there. The result of the step is the same for any two file
  systems that differ only in \<^verbatim>\<open>extra/predictions\<close>.
\<close>

theorem createOutputStep_reads_tmp:
  assumes "isabs (getcwd self)"
  shows "resolve (getcwd self) (outDMMFile self) =
           resolve (getcwd self) (output_path self) @ [''DMM_score_w9.pdb'']
       \<and> (\<forall>t0 args t0'. getDMMArgs self t0 = Inr (args, t0') \<longrightarrow>
              (\<exists>pre. args = pre @ '' -o '' @ output_path self @ '' -t 10 -T 10''))
       \<and> \<not> prefix (resolve (getcwd self) (outDir self)) (resolve (getcwd self) (outDMMFile self))
       \<and> \<not> prefix (resolve (getcwd self) (outDir self))
                    (resolve (getcwd self) (getTmpPath self [''inputStruct.cif'']))
       \<and> \<not> prefix (resolve (getcwd self) (outDir self))
                    (resolve (getcwd self) (getPath self [''outputStructure.cif'']))
       \<and> (\<forall>c \<in> set (fst (createOutputStep self lib t)).
             c = Open (outDMMFile self)
           \<or> c = WriteLowLevel (getPath self [''outputStructure.cif''])
           \<or> (\<exists>a. inputAtomStruct self = Some a
                  \<and> (c = ToCIF (as_fileName a) (getTmpPath self [''inputStruct.cif''])
                     \<or> (\<exists>inpAS. toCIF lib (as_fileName a) (getTmpPath self [''inputStruct.cif'']) = Inr inpAS
                            \<and> c = ReadLowLevel inpAS))))
       \<and> ((\<forall>a. inputAtomStruct self = Some a \<longrightarrow>
               \<not> prefix (resolve (getcwd self) (outDir self)) (resolve (getcwd self) (as_fileName a))
             \<and> (\<forall>inpAS. toCIF lib (as_fileName a) (getTmpPath self [''inputStruct.cif'']) = Inr inpAS \<longrightarrow>
                   \<not> prefix (resolve (getcwd self) (outDir self)) (resolve (getcwd self) inpAS)))
           \<longrightarrow> (\<forall>c \<in> set (fst (createOutputStep self lib t)). \<forall>name \<in> set (read_names c).
                   \<not> prefix (resolve (getcwd self) (outDir self)) (resolve (getcwd self) name)))
       \<and> (\<forall>t'. (\<forall>p. \<not> prefix (resolve (getcwd self) (outDir self)) p \<longrightarrow> t' p = t p) \<longrightarrow>
               createOutputStep self lib t' = createOutputStep self lib t)"
proof -
  let ?cwd = "getcwd self"
  let ?Q = "resolve ?cwd (outDir self)"
  define W where "W = resolve ?cwd (workingDir self)"
  have f: "resolve ?cwd (outDMMFile self) = W @ [''tmp'', ''predictions'', ''DMM_score_w9.pdb'']"
    by (simp add: outDMMFile_def resolve_abspath[OF assms] resolve_tmp_file W_def)
  have o: "resolve ?cwd (output_path self) = W @ [''tmp'', ''predictions'']"
    by (simp add: output_path_def resolve_abspath[OF assms] resolve_tmp_dir W_def)
  have q: "?Q = W @ [''extra'', ''predictions'']"
    by (simp add: resolve_outDir W_def)
  have 1: "resolve ?cwd (outDMMFile self) = resolve ?cwd (output_path self) @ [''DMM_score_w9.pdb'']"
    by (simp add: f o)
  have 2: "\<forall>t0 args t0'. getDMMArgs self t0 = Inr (args, t0') \<longrightarrow>
              (\<exists>pre. args = pre @ '' -o '' @ output_path self @ '' -t 10 -T 10'')"
    by (intro allI impI) (rule getDMMArgs_output_path)
  have 3: "\<not> prefix ?Q (resolve ?cwd (outDMMFile self))"
    unfolding f q by simp
  have 4: "\<not> prefix ?Q (resolve ?cwd (getTmpPath self [''inputStruct.cif'']))"
    unfolding q resolve_tmp_cif W_def[symmetric] by simp
  have 5: "\<not> prefix ?Q (resolve ?cwd (getPath self [''outputStructure.cif'']))"
    unfolding q resolve_out_struct W_def[symmetric] by simp
  have 6: "\<forall>c \<in> set (fst (createOutputStep self lib t)).
             c = Open (outDMMFile self)
           \<or> c = WriteLowLevel (getPath self [''outputStructure.cif''])
           \<or> (\<exists>a. inputAtomStruct self = Some a
                  \<and> (c = ToCIF (as_fileName a) (getTmpPath self [''inputStruct.cif''])
                     \<or> (\<exists>inpAS. toCIF lib (as_fileName a) (getTmpPath self [''inputStruct.cif'']) = Inr inpAS
                            \<and> c = ReadLowLevel inpAS)))"
    by (rule ballI) (rule createOutputStep_calls)
  have 7: "(\<forall>a. inputAtomStruct self = Some a \<longrightarrow>
               \<not> prefix ?Q (resolve ?cwd (as_fileName a))
             \<and> (\<forall>inpAS. toCIF lib (as_fileName a) (getTmpPath self [''inputStruct.cif'']) = Inr inpAS \<longrightarrow>
                   \<not> prefix ?Q (resolve ?cwd inpAS)))
           \<longrightarrow> (\<forall>c \<in> set (fst (createOutputStep self lib t)). \<forall>name \<in> set (read_names c).
                   \<not> prefix ?Q (resolve ?cwd name))"
  proof (intro impI ballI)
    fix c name
    assume h: "\<forall>a. inputAtomStruct self = Some a \<longrightarrow>
               \<not> prefix ?Q (resolve ?cwd (as_fileName a))
             \<and> (\<forall>inpAS. toCIF lib (as_fileName a) (getTmpPath self [''inputStruct.cif'']) = Inr inpAS \<longrightarrow>
                   \<not> prefix ?Q (resolve ?cwd inpAS))"
      and c: "c \<in> set (fst (createOutputStep self lib t))" and n: "name \<in> set (read_names c)"
    from createOutputStep_calls[OF c]
    consider "c = Open (outDMMFile self)"
      | "c = WriteLowLevel (getPath self [''outputStructure.cif''])"
      | a where "inputAtomStruct self = Some a"
          "c = ToCIF (as_fileName a) (getTmpPath self [''inputStruct.cif''])"
      | a inpAS where "inputAtomStruct self = Some a"
          "toCIF lib (as_fileName a) (getTmpPath self [''inputStruct.cif'']) = Inr inpAS"
          "c = ReadLowLevel inpAS"
      by blast
    then show "\<not> prefix ?Q (resolve ?cwd name)"
    proof cases
      case 1
      with n have "name = outDMMFile self" by simp
      with 3 show ?thesis by simp
    next
      case 2
      with n show ?thesis by simp
    next
      case (3 a)
      with n have "name = as_fileName a" by simp
      with h 3(1) show ?thesis by simp
    next
      case (4 a inpAS)
      with n have "name = inpAS" by simp
      with h 4(1,2) show ?thesis by simp
    qed
  qed
  have 8: "\<forall>t'. (\<forall>p. \<not> prefix ?Q p \<longrightarrow> t' p = t p) \<longrightarrow>
               createOutputStep self lib t' = createOutputStep self lib t"
  proof (intro allI impI)
    fix t' assume "\<forall>p. \<not> prefix ?Q p \<longrightarrow> t' p = t p"
    with 3 have "t' (resolve ?cwd (outDMMFile self)) = t (resolve ?cwd (outDMMFile self))"
      by blast
    then have "read_lines t' (resolve ?cwd (outDMMFile self)) =
           read_lines t (resolve ?cwd (outDMMFile self))"
      by (simp add: read_lines_def)
    then show "createOutputStep self lib t' = createOutputStep self lib t"
      by (rule createOutputStep_same_scores)
  qed
  show ?thesis
    apply (intro conjI)
           apply (rule 1)
          apply (rule 2)
         apply (rule 3)
        apply (rule 4)
       apply (rule 5)
      apply (rule 6)
     apply (rule 7)
    apply (rule 8)
    done
qed

lemma sample_output_path:
  "resolve (getcwd sample_protocol) (output_path sample_protocol) =
     [''home'', ''u'', ''proj'', ''Runs'', ''000002_ProtDMM'', ''tmp'', ''predictions'']"
  by (simp add: output_path_def sample_protocol_def getTmpPath_def getPath_def path_defs)

lemma sample_calls:
  "fst (createOutputStep sample_protocol sample_lib sample_fs_scores) =
     [Open ''/home/u/proj/Runs/000002_ProtDMM/tmp/predictions/DMM_score_w9.pdb'',
      ToCIF ''Runs/000001_Import/extra/model.cif'' ''Runs/000002_ProtDMM/tmp/inputStruct.cif'',
      ReadLowLevel ''Runs/000001_Import/extra/model.cif'',
      WriteLowLevel ''Runs/000002_ProtDMM/outputStructure.cif'']"
proof -
  have a: "attr (inputAtomStruct sample_protocol) =
      Inr \<lparr>as_fileName = ''Runs/000001_Import/extra/model.cif'', as_volume = None\<rparr>"
    by (simp add: sample_protocol_def attr_def)
  have t: "getTmpPath sample_protocol [''inputStruct.cif''] = ''Runs/000002_ProtDMM/tmp/inputStruct.cif''"
    by (simp add: sample_protocol_def getTmpPath_def getPath_def path_defs)
  have p: "getPath sample_protocol [''outputStructure.cif''] = ''Runs/000002_ProtDMM/outputStructure.cif''"
    by (simp add: sample_protocol_def getPath_def path_defs)
  show ?thesis
    by (simp add: createOutputStep_def sample_scores Let_def a sample_lib_def t p)
       (simp add: sample_outDMMFile)
qed

theorem createOutputStep_reads_tmp_witness:
  "isabs (getcwd sample_protocol)
   \<and> resolve (getcwd sample_protocol) (outDMMFile sample_protocol) =
       [''home'', ''u'', ''proj'', ''Runs'', ''000002_ProtDMM'', ''tmp'', ''predictions'',
        ''DMM_score_w9.pdb'']
   \<and> resolve (getcwd sample_protocol) (output_path sample_protocol) =
       [''home'', ''u'', ''proj'', ''Runs'', ''000002_ProtDMM'', ''tmp'', ''predictions'']
   \<and> resolve (getcwd sample_protocol) (outDir sample_protocol) =
       [''home'', ''u'', ''proj'', ''Runs'', ''000002_ProtDMM'', ''extra'', ''predictions'']
   \<and> \<not> prefix (resolve (getcwd sample_protocol) (outDir sample_protocol))
                (resolve (getcwd sample_protocol) (outDMMFile sample_protocol))
   \<and> fst (createOutputStep sample_protocol sample_lib sample_fs_scores) =
       [Open ''/home/u/proj/Runs/000002_ProtDMM/tmp/predictions/DMM_score_w9.pdb'',
        ToCIF ''Runs/000001_Import/extra/model.cif'' ''Runs/000002_ProtDMM/tmp/inputStruct.cif'',
        ReadLowLevel ''Runs/000001_Import/extra/model.cif'',
        WriteLowLevel ''Runs/000002_ProtDMM/outputStructure.cif'']"
proof -
  have h: "isabs (getcwd sample_protocol)"
    by (simp add: sample_protocol_def isabs_def startswith_def)
  note th = createOutputStep_reads_tmp[OF h, of sample_lib sample_fs_scores]
  from th have 1: "resolve (getcwd sample_protocol) (outDMMFile sample_protocol) =
      resolve (getcwd sample_protocol) (output_path sample_protocol) @ [''DMM_score_w9.pdb'']"
    by (rule conjunct1)
  from th have 3: "\<not> prefix (resolve (getcwd sample_protocol) (outDir sample_protocol))
                (resolve (getcwd sample_protocol) (outDMMFile sample_protocol))"
    by (elim conjE)
  show ?thesis
    apply (intro conjI)
         apply (rule h)
        apply (simp add: 1 sample_output_path)
       apply (rule sample_output_path)
      apply (rule sample_paths(3))
     apply (rule 3)
    apply (rule sample_calls)
    done
qed

end
